theory Spec2Isabelle
  imports Complex_Main
begin

section \<open>Arrays\<close>

text \<open>
  The notebook \<^verbatim>\<open>6_5_source_finding.ipynb\<close> works on two-dimensional numpy arrays of
  floating-point numbers. An array is modelled as the list of its rows and a sample as a
  real number: arithmetic is exact, rounding and the values \<^verbatim>\<open>nan\<close> and \<^verbatim>\<open>inf\<close> are not
  modelled. An array without rows is taken to have no columns, and the mean of an array
  without samples, \<^verbatim>\<open>nan\<close> in numpy, is not modelled either: what is proved of a noise
  estimate assumes an image with at least one sample. Python exceptions are values of
  the type \<open>error\<close>.
\<close>

type_synonym image = "real list list"

datatype error = ValueError | IndexError | TypeError

definition np_shape :: "image \<Rightarrow> nat \<times> nat" where
  "np_shape a = (length a, (case a of [] \<Rightarrow> 0 | r # _ \<Rightarrow> length r))"

definition rectangular :: "image \<Rightarrow> bool" where
  "rectangular a = list_all (\<lambda>r. length r = snd (np_shape a)) a"

definition flatten :: "image \<Rightarrow> real list" where
  "flatten a = concat a"

text \<open>\<^verbatim>\<open>np.mean\<close> of the flattened array.\<close>

definition np_mean :: "real list \<Rightarrow> real" where
  "np_mean xs = sum_list xs / real (length xs)"

text \<open>\<^verbatim>\<open>a.max()\<close>: raises \<^verbatim>\<open>ValueError\<close> on an array without elements.\<close>

definition np_max :: "image \<Rightarrow> error + real" where
  "np_max a = (case flatten a of [] \<Rightarrow> Inl ValueError | x # xs \<Rightarrow> Inr (fold max xs x))"

text \<open>
  \<^verbatim>\<open>xpix, ypix = np.where(a == v); xpix = xpix[0]; ypix = ypix[0]\<close>: the first position,
  in row-major order, that holds \<open>v\<close>; indexing the empty result raises \<^verbatim>\<open>IndexError\<close>.
\<close>

definition np_where_first :: "image \<Rightarrow> real \<Rightarrow> error + (nat \<times> nat)" where
  "np_where_first a v =
     (case find (\<lambda>(i, j). a ! i ! j = v)
             (concat (map (\<lambda>i. map (\<lambda>j. (i, j)) [0..<length (a ! i)]) [0..<length a])) of
        None \<Rightarrow> Inl IndexError
      | Some p \<Rightarrow> Inr p)"

text \<open>
  \<^verbatim>\<open>slice(start, stop)\<close> on an axis of length \<open>n\<close>: a negative bound counts from the
  end, and both bounds are clipped to \<open>0..n\<close>. The slice selects the indices
  \<open>lo \<le> i < hi\<close>, none when \<open>hi \<le> lo\<close>.
\<close>

definition slice_indices :: "int \<Rightarrow> int \<Rightarrow> nat \<Rightarrow> nat \<times> nat" where
  "slice_indices start stop n =
     (let clip = (\<lambda>k. if k < 0 then max 0 (k + int n) else min k (int n))
      in (nat (clip start), nat (clip stop)))"

type_synonym slice2 = "(nat \<times> nat) \<times> (nat \<times> nat)"

text \<open>\<^verbatim>\<open>a[rows, cols]\<close> read through a pair of normalised slices.\<close>

definition getslice :: "slice2 \<Rightarrow> image \<Rightarrow> image" where
  "getslice s a =
     (case s of ((r0, r1), (c0, c1)) \<Rightarrow>
        map (\<lambda>row. take (c1 - c0) (drop c0 row)) (take (r1 - r0) (drop r0 a)))"

text \<open>
  \<^verbatim>\<open>a[rows, cols] = v\<close> (with \<open>f old new = new\<close>) and \<^verbatim>\<open>a[rows, cols] -= v\<close> (with
  \<open>f old new = old - new\<close>), for a value \<open>v\<close> of the shape of the selected window.
\<close>

definition setslice :: "(real \<Rightarrow> real \<Rightarrow> real) \<Rightarrow> slice2 \<Rightarrow> image \<Rightarrow> image \<Rightarrow> image" where
  "setslice f s v a =
     (case s of ((r0, r1), (c0, c1)) \<Rightarrow>
        map (\<lambda>i. map (\<lambda>j. if r0 \<le> i \<and> i < r1 \<and> c0 \<le> j \<and> j < c1
                            then f (a ! i ! j) (v ! (i - r0) ! (j - c0))
                            else a ! i ! j)
                      [0..<length (a ! i)])
            [0..<length a])"

text \<open>
  \<^verbatim>\<open>np.pad(a, pad_width=((pad, pad), (pad, pad)), mode="constant")\<close>: \<open>pad\<close> zeros on
  every side; a negative width raises \<^verbatim>\<open>ValueError\<close>.
\<close>

definition np_pad :: "image \<Rightarrow> int \<Rightarrow> error + image" where
  "np_pad a pad =
     (if pad < 0 then Inl ValueError
      else let p = nat pad; z = replicate (snd (np_shape a) + 2 * p) 0
           in Inr (replicate p z @ map (\<lambda>r. replicate p 0 @ r @ replicate p 0) a @ replicate p z))"

definition np_zeros :: "nat \<times> nat \<Rightarrow> image" where
  "np_zeros sh = replicate (fst sh) (replicate (snd sh) 0)"

text \<open>
  \<^verbatim>\<open>np.linspace(start, stop, num)\<close>: \<open>num\<close> evenly spaced samples from \<open>start\<close> to
  \<open>stop\<close>, both included.
\<close>

definition np_linspace :: "real \<Rightarrow> real \<Rightarrow> nat \<Rightarrow> real list" where
  "np_linspace start stop num =
     (if num = 1 then [start]
      else map (\<lambda>i. start + real i * ((stop - start) / real (num - 1))) [0..<num])"

text \<open>\<^verbatim>\<open>xx, yy = np.meshgrid(x, y)\<close>: both of shape \<open>(len(y), len(x))\<close>.\<close>

definition np_meshgrid :: "real list \<Rightarrow> real list \<Rightarrow> image \<times> image" where
  "np_meshgrid x y = (map (\<lambda>_. x) y, map (\<lambda>v. map (\<lambda>_. v) x) y)"

text \<open>\<^verbatim>\<open>np.diagonal\<close> of a matrix.\<close>

definition np_diagonal :: "real list list \<Rightarrow> real list" where
  "np_diagonal c = map (\<lambda>i. c ! i ! i) [0..<min (fst (np_shape c)) (snd (np_shape c))]"

section \<open>Noise estimate\<close>

text \<open>\<^verbatim>\<open>mad_mean = lambda a: np.mean( abs(a - np.mean(a) ))\<close>\<close>

definition mad_mean :: "image \<Rightarrow> real" where
  "mad_mean a = np_mean (map (\<lambda>x. \<bar>x - np_mean (flatten a)\<bar>) (flatten a))"

section \<open>Gaussian model and fit\<close>

type_synonym params = "real \<times> real \<times> real \<times> real \<times> real"

definition gauss2D :: "real \<Rightarrow> real \<Rightarrow> real \<Rightarrow> real \<Rightarrow> real \<Rightarrow> real \<Rightarrow> real \<Rightarrow> real" where
  "gauss2D x y amp mean_x mean_y sigma_x sigma_y =
     (let gx = - ((x - mean_x)\<^sup>2) / (2 * sigma_x\<^sup>2);
          gy = - ((y - mean_y)\<^sup>2) / (2 * sigma_y\<^sup>2)
      in amp * exp (gx + gy))"

text \<open>
  With a width of 0 numpy divides by zero and the model is 0 or \<^verbatim>\<open>nan\<close>; in HOL the quotient
  is 0. No example below evaluates \<open>gauss2D\<close> at a width of 0.
\<close>

text \<open>\<open>gauss2D\<close> on arrays of coordinates, with the parameter tuple unpacked (\<^verbatim>\<open>*p\<close>).\<close>

definition gauss2D_list :: "real list \<Rightarrow> real list \<Rightarrow> params \<Rightarrow> real list" where
  "gauss2D_list xs ys p =
     (case p of (amp, mean_x, mean_y, sigma_x, sigma_y) \<Rightarrow>
        map2 (\<lambda>x y. gauss2D x y amp mean_x mean_y sigma_x sigma_y) xs ys)"

definition gauss2D_image :: "image \<Rightarrow> image \<Rightarrow> params \<Rightarrow> image" where
  "gauss2D_image xx yy p = map2 (\<lambda>xs ys. gauss2D_list xs ys p) xx yy"

definition err :: "params \<Rightarrow> image \<Rightarrow> image \<Rightarrow> image \<Rightarrow> real list" where
  "err p xx yy data = map2 (-) (gauss2D_list (flatten xx) (flatten yy) p) (flatten data)"

text \<open>
  \<^verbatim>\<open>scipy.optimize.leastsq(func, x0, full_output=1)\<close> is a library routine and a
  parameter of the model. It receives the residual function and the initial guess and
  either raises or returns the parameter vector, the covariance matrix (\<^verbatim>\<open>None\<close> when
  the solver met a singular matrix) and the integer flag \<^verbatim>\<open>ier\<close> (1 to 4 when a
  solution was found). The other two outputs are never read by the notebook.
\<close>

type_synonym lsq_out = "params \<times> real list list option \<times> int"
type_synonym lsq = "(params \<Rightarrow> real list) \<Rightarrow> params \<Rightarrow> error + lsq_out"

text \<open>
  The coordinates on which \<^verbatim>\<open>fit_gaussian\<close> evaluates the model:
  \<^verbatim>\<open>npix_x, npix_y = data.shape; x = np.linspace(0, npix_x, npix_x);
  y = np.linspace(0, npix_y, npix_y); xx, yy = np.meshgrid(x, y)\<close>.
\<close>

definition pixel_grid :: "image \<Rightarrow> image \<times> image" where
  "pixel_grid data =
     (let npix_x = fst (np_shape data);
          npix_y = snd (np_shape data);
          x = np_linspace 0 (real npix_x) npix_x;
          y = np_linspace 0 (real npix_y) npix_y
      in np_meshgrid x y)"

text \<open>
  \<^verbatim>\<open>fit_gaussian(data, psf_pix)\<close>. \<^verbatim>\<open>data.max()\<close> raises on a window without pixels,
  and \<^verbatim>\<open>abs(np.diagonal(pcov))**0.5\<close> raises \<^verbatim>\<open>ValueError\<close> when \<^verbatim>\<open>pcov\<close> is \<^verbatim>\<open>None\<close>. The
  flag \<^verbatim>\<open>sucess\<close> is bound and never read. \<^verbatim>\<open>width/2\<close> is Python 2's integer division.
\<close>

definition fit_gaussian :: "lsq \<Rightarrow> image \<Rightarrow> real \<Rightarrow> error + (params \<times> real list \<times> image)" where
  "fit_gaussian leastsq data psf_pix =
     (let width = fst (np_shape data);
          mean_x = real (width div 2);
          mean_y = real (width div 2)
      in case np_max data of
           Inl e \<Rightarrow> Inl e
         | Inr amp \<Rightarrow>
             (let sigma_x = psf_pix;
                  sigma_y = psf_pix;
                  params0 = (amp, mean_x, mean_y, sigma_x, sigma_y);
                  xx = fst (pixel_grid data);
                  yy = snd (pixel_grid data)
              in case leastsq (\<lambda>p. err p xx yy data) params0 of
                   Inl e \<Rightarrow> Inl e
                 | Inr (params, pcov, sucess) \<Rightarrow>
                     (case pcov of
                        None \<Rightarrow> Inl ValueError
                      | Some c \<Rightarrow>
                          (let perr = map (\<lambda>v. sqrt \<bar>v\<bar>) (np_diagonal c);
                               model = gauss2D_image xx yy params
                           in Inr (params, perr, model)))))"

section \<open>The source finder\<close>

type_synonym source = "real \<times> real \<times> real \<times> real \<times> real"

record state =
  residual :: image
  model :: image
  catalog :: "source list"

datatype step = Break | Raise error | Continue state

definition FWHM :: real where
  "FWHM = 2 * sqrt (2 * ln 2)"

text \<open>
  The slice \<^verbatim>\<open>subim_slice\<close> around the pixel \<open>(xpix, ypix)\<close>; \<^verbatim>\<open>width/2\<close> is Python 2's
  integer division.
\<close>

definition subim_slice :: "image \<Rightarrow> int \<Rightarrow> nat \<Rightarrow> nat \<Rightarrow> slice2" where
  "subim_slice a width xpix ypix =
     (slice_indices (int xpix - width div 2) (int xpix + width div 2) (fst (np_shape a)),
      slice_indices (int ypix - width div 2) (int ypix + width div 2) (snd (np_shape a)))"

text \<open>\<^verbatim>\<open>subimage*mask\<close> with \<^verbatim>\<open>mask = subimage > boundary_sigma\<close>.\<close>

definition masked :: "real \<Rightarrow> image \<Rightarrow> image" where
  "masked boundary_sigma subimage =
     map (map (\<lambda>v. v * (if v > boundary_sigma then 1 else 0))) subimage"

text \<open>
  One pass through the body of \<^verbatim>\<open>while True\<close>. It breaks, raises, or goes on with the
  updated arrays and catalogue. Unpacking \<^verbatim>\<open>perr\<close> into five names raises \<^verbatim>\<open>ValueError\<close>
  unless it has five entries. The assignment \<^verbatim>\<open>model[subim_slice] = _model\<close> raises
  \<^verbatim>\<open>ValueError\<close> unless the model has the shape of the window: the model has the shape
  \<open>(npix_y, npix_x)\<close>, the window \<open>(npix_x, npix_y)\<close>, and numpy broadcasts the one to the
  other only when they are equal.
\<close>

definition iteration :: "lsq \<Rightarrow> real \<Rightarrow> real \<Rightarrow> int \<Rightarrow> real \<Rightarrow> state \<Rightarrow> step" where
  "iteration leastsq peak_sigma boundary_sigma width psf_pix st =
     (case np_max (residual st) of
        Inl e \<Rightarrow> Raise e
      | Inr max_pix \<Rightarrow>
          if max_pix < peak_sigma then Break
          else
            (case np_where_first (residual st) max_pix of
               Inl e \<Rightarrow> Raise e
             | Inr (xpix, ypix) \<Rightarrow>
                 (let sl = subim_slice (residual st) width xpix ypix;
                      subimage = getslice sl (residual st)
                  in case fit_gaussian leastsq (masked boundary_sigma subimage) psf_pix of
                       Inl e \<Rightarrow> Raise e
                     | Inr ((amp, mean_x, mean_y, sigma_x, sigma_y), perr, gmodel) \<Rightarrow>
                         if length perr \<noteq> 5 then Raise ValueError
                         else
                           (let pad = width * 2;
                                pos_x = real xpix + (real_of_int (width div 2) - mean_x) - real_of_int pad;
                                pos_y = real ypix + (real_of_int (width div 2) - mean_y) - real_of_int pad;
                                size_x = FWHM * sigma_x;
                                size_y = FWHM * sigma_y
                            in if np_shape gmodel \<noteq> np_shape subimage then Raise ValueError
                               else Continue
                                 \<lparr>residual = setslice (\<lambda>old new. old - new) sl gmodel (residual st),
                                  model = setslice (\<lambda>old new. new) sl gmodel (model st),
                                  catalog = catalog st @ [(amp, pos_x, pos_y, size_x, size_y)]\<rparr>))))"

text \<open>
  The loop \<^verbatim>\<open>while True\<close> has no bound on its iterations: a run that never leaves it
  has the value \<open>None\<close>.
\<close>

partial_function (option)
  loop :: "lsq \<Rightarrow> real \<Rightarrow> real \<Rightarrow> int \<Rightarrow> real \<Rightarrow> state \<Rightarrow> (error + state) option" where
  "loop leastsq peak_sigma boundary_sigma width psf_pix st =
     (case iteration leastsq peak_sigma boundary_sigma width psf_pix st of
        Break \<Rightarrow> Some (Inr st)
      | Raise e \<Rightarrow> Some (Inl e)
      | Continue st' \<Rightarrow> loop leastsq peak_sigma boundary_sigma width psf_pix st')"

definition imslice :: "image \<Rightarrow> int \<Rightarrow> slice2" where
  "imslice a pad =
     (slice_indices pad (- pad) (fst (np_shape a)), slice_indices pad (- pad) (snd (np_shape a)))"

definition init_state :: "image \<Rightarrow> state" where
  "init_state residual0 =
     \<lparr>residual = residual0, model = np_zeros (np_shape residual0), catalog = []\<rparr>"

definition source_finder ::
  "lsq \<Rightarrow> image \<Rightarrow> real \<Rightarrow> real \<Rightarrow> int \<Rightarrow> real \<Rightarrow>
     (error + (source list \<times> image \<times> image \<times> real)) option" where
  "source_finder leastsq data peak boundary width psf_pix =
     (let sigma_noise = mad_mean data;
          peak_sigma = sigma_noise * peak;
          boundary_sigma = sigma_noise * boundary;
          pad = width * 2
      in case np_pad data pad of
           Inl e \<Rightarrow> Some (Inl e)
         | Inr residual0 \<Rightarrow>
             (case loop leastsq peak_sigma boundary_sigma width psf_pix (init_state residual0) of
                None \<Rightarrow> None
              | Some (Inl e) \<Rightarrow> Some (Inl e)
              | Some (Inr st) \<Rightarrow>
                  Some (Inr (catalog st,
                             getslice (imslice residual0 pad) (model st),
                             getslice (imslice residual0 pad) (residual st),
                             sigma_noise))))"

section \<open>Runs of the loop\<close>

text \<open>
  \<open>run st sts st'\<close>: starting in \<open>st\<close>, the loop completes \<open>length sts\<close> iterations and
  is then in \<open>st'\<close>; \<open>sts\<close> lists the states in which these iterations began.
\<close>

inductive run :: "lsq \<Rightarrow> real \<Rightarrow> real \<Rightarrow> int \<Rightarrow> real \<Rightarrow> state \<Rightarrow> state list \<Rightarrow> state \<Rightarrow> bool"
  for leastsq peak_sigma boundary_sigma width psf_pix where
  run_here: "run leastsq peak_sigma boundary_sigma width psf_pix st [] st"
| run_iter: "iteration leastsq peak_sigma boundary_sigma width psf_pix st = Continue st' \<Longrightarrow>
             run leastsq peak_sigma boundary_sigma width psf_pix st' sts st'' \<Longrightarrow>
             run leastsq peak_sigma boundary_sigma width psf_pix st (st # sts) st''"

code_pred run .

text \<open>The brightest pixel that an iteration beginning in \<open>st\<close> finds, and the window it cuts.\<close>

definition peak_of :: "state \<Rightarrow> real" where
  "peak_of st = (case np_max (residual st) of Inl _ \<Rightarrow> 0 | Inr max_pix \<Rightarrow> max_pix)"


definition same_shape :: "image \<Rightarrow> image \<Rightarrow> bool" where
  "same_shape a b = list_all2 (\<lambda>r s. length r = length s) a b"

definition in_slice :: "slice2 \<Rightarrow> nat \<Rightarrow> nat \<Rightarrow> bool" where
  "in_slice s i j = (case s of ((r0, r1), (c0, c1)) \<Rightarrow> r0 \<le> i \<and> i < r1 \<and> c0 \<le> j \<and> j < c1)"




section \<open>The solver and the images of the examples\<close>

text \<open>
  The examples need the output of \<^verbatim>\<open>scipy.optimize.leastsq\<close> on particular windows.
  \<open>known_lsq\<close> answers in the three cases in which that output is fixed by the routine's
  contract and by the problem itself, whatever path its iteration takes:

  \<^item> with fewer residuals than parameters (a window of fewer than five pixels) the routine
    raises \<^verbatim>\<open>TypeError\<close> before it starts;

  \<^item> at an initial guess of amplitude 0 whose residuals are all 0 (a window that is zero
    everywhere) the gradient is zero, the routine stops at the guess and returns it, and the
    Jacobian, whose columns for the centre and the widths are zero, gives no covariance
    matrix (\<^verbatim>\<open>None\<close>, flag 4);

  \<^item> when one of the two parameter vectors \<open>fit_a\<close> and \<open>fit_b\<close> makes every residual 0, that
    vector is the least-squares solution, with sum of squares 0, and the routine returns
    it, up to its tolerance, with a covariance matrix and the flag 1. The examples start
    the routine at the initial width 3, close to the widths of the two vectors (about 2.75
    and 3.89).

  \<open>known_lsq\<close> decides each case by evaluating the residual function \<open>func\<close> that
  \<^verbatim>\<open>fit_gaussian\<close> passes. The entries of the covariance matrix are not modelled: the notebook
  takes the square roots of its diagonal and never reads them, and \<open>unit_cov\<close> stands for a
  matrix of five rows and columns. On every other problem the output of the routine
  depends on its iteration; \<open>known_lsq\<close> then returns the initial guess with the flag 5
  (iteration limit), and no example below takes it there.
\<close>

definition unit_cov :: "real list list" where
  "unit_cov = map (\<lambda>i. map (\<lambda>j. if i = j then 1 else 0) [0..<5]) [0..<(5::nat)]"

definition ln_b :: real where
  "ln_b = ln (9 / 8)"

definition width_a :: real where
  "width_a = sqrt (8 / (9 * ln_b))"

definition width_b :: real where
  "width_b = sqrt (16 / (9 * ln_b))"

definition fit_a :: params where
  "fit_a = (43046721, 8 / 3, 8 / 3, width_a, width_a)"

definition fit_b :: params where
  "fit_b = (42515280 * exp (ln_b / 4), 10 / 3, 10 / 3, width_b, width_b)"

definition zero_residual :: "(params \<Rightarrow> real list) \<Rightarrow> params \<Rightarrow> bool" where
  "zero_residual func q = list_all (\<lambda>r. r = 0) (func q)"

definition known_lsq :: lsq where
  "known_lsq func x0 =
     (if length (func x0) < 5 then Inl TypeError
      else if fst x0 = 0 \<and> zero_residual func x0 then Inr (x0, None, 4)
      else case find (zero_residual func) [fit_a, fit_b] of
             Some q \<Rightarrow> Inr (q, Some unit_cov, 1)
           | None \<Rightarrow> Inr (x0, Some unit_cov, 5))"

text \<open>
  The coordinates that \<^verbatim>\<open>fit_gaussian\<close> gives to a window of four by four pixels are
  \<open>0, 4/3, 8/3, 4\<close> on each axis. \<open>window_a\<close> holds the Gaussian \<open>fit_a\<close> on these
  coordinates: its amplitude is 43046721, it is centred on the pixel of index 2 (coordinate
  \<open>8/3\<close>), and its width makes each step of \<open>4/3\<close> away from the centre a power of \<open>8/9\<close>.
  \<open>window_b\<close> holds the Gaussian \<open>fit_b\<close>: it is centred at the coordinate \<open>10/3\<close>, between
  the pixels of index 2 and 3, so that its amplitude, 42515280 times the fourth root of
  \<open>9/8\<close>, is larger than its brightest pixel, 42515280. All pixels of both windows are
  integers.
\<close>

definition axis_a :: "real list" where
  "axis_a = [4096, 5832, 6561, 5832]"

definition axis_b :: "real list" where
  "axis_b = [512, 648, 729, 729]"

definition window_a :: image where
  "window_a = map (\<lambda>u. map (\<lambda>v. u * v) axis_a) axis_a"

definition window_b :: image where
  "window_b = map (\<lambda>u. map (\<lambda>v. 80 * u * v) axis_b) axis_b"

definition grid_x :: image where
  "grid_x = replicate 4 [0, 4 / 3, 8 / 3, 4]"

definition grid_y :: image where
  "grid_y = map (replicate 4) [0, 4 / 3, 8 / 3, 4]"

text \<open>
  The records of the two Gaussians when their windows are the rows 8 to 11 of an image
  padded by 8 and its columns 8 to 11 (\<open>src_a\<close>) and 12 to 15 (\<open>src_b\<close>).
\<close>

definition src_a :: source where
  "src_a = (43046721, 4 / 3, 4 / 3, FWHM * width_a, FWHM * width_a)"

definition src_b :: source where
  "src_b = (42515280 * exp (ln_b / 4), 2 / 3, 14 / 3, FWHM * width_b, FWHM * width_b)"

text \<open>The image \<open>[[-3, -1]]\<close> padded for \<open>width = 3\<close>, by six zeros on every side.\<close>

definition faint_padded :: image where
  "faint_padded =
     replicate 6 (replicate 14 0) @ [replicate 6 0 @ [- 3, - 1] @ replicate 6 0] @
     replicate 6 (replicate 14 0)"

text \<open>
  \<open>twin_image\<close>, of four rows and eight columns, holds \<open>window_a\<close> beside \<open>window_b\<close>. It is
  padded for \<open>width = 4\<close>, by eight zeros on every side; \<open>twin_state1\<close> and \<open>twin_state2\<close> are
  the states after the first and the second iteration on it.
\<close>

definition twin_image :: image where
  "twin_image = map2 (@) window_a window_b"

definition twin_padded :: image where
  "twin_padded =
     replicate 8 (replicate 24 0) @ map (\<lambda>r. replicate 8 0 @ r @ replicate 8 0) twin_image @
     replicate 8 (replicate 24 0)"

definition twin_state1 :: state where
  "twin_state1 =
     \<lparr>residual = setslice (\<lambda>old new. old - new) ((8, 12), (8, 12)) window_a twin_padded,
      model = setslice (\<lambda>old new. new) ((8, 12), (8, 12)) window_a (np_zeros (20, 24)),
      catalog = [src_a]\<rparr>"

definition twin_state2 :: state where
  "twin_state2 =
     \<lparr>residual = setslice (\<lambda>old new. old - new) ((8, 12), (12, 16)) window_b (residual twin_state1),
      model = setslice (\<lambda>old new. new) ((8, 12), (12, 16)) window_b (model twin_state1),
      catalog = [src_a, src_b]\<rparr>"

text \<open>
  \<open>lone_image\<close>, of four rows and eight columns, holds \<open>window_a\<close> beside a constant
  negative background, chosen so that the noise estimate of the image is half its
  brightest pixel. \<open>lone_state1\<close> is the state after the one iteration on it, and
  \<open>lone_model\<close> and \<open>lone_residual\<close> are the images that the run returns.
\<close>

definition lone_image :: image where
  "lone_image = map (\<lambda>r. r @ replicate 4 (- 190520495 / 16)) window_a"

definition lone_padded :: image where
  "lone_padded =
     replicate 8 (replicate 24 0) @ map (\<lambda>r. replicate 8 0 @ r @ replicate 8 0) lone_image @
     replicate 8 (replicate 24 0)"

definition lone_state1 :: state where
  "lone_state1 =
     \<lparr>residual = setslice (\<lambda>old new. old - new) ((8, 12), (8, 12)) window_a lone_padded,
      model = setslice (\<lambda>old new. new) ((8, 12), (8, 12)) window_a (np_zeros (20, 24)),
      catalog = [src_a]\<rparr>"

definition lone_model :: image where
  "lone_model = map (\<lambda>r. r @ replicate 4 0) window_a"

definition lone_residual :: image where
  "lone_residual = replicate 4 (replicate 4 0 @ replicate 4 (- 190520495 / 16))"

text \<open>
  \<open>bars_image\<close>, of four rows and columns, holds two rows of 4 between two rows of 0; its
  noise estimate is 2. \<open>bars_window\<close> is the window that the first iteration cuts from it.
\<close>

definition bars_image :: image where
  "bars_image = [replicate 4 0, replicate 4 4, replicate 4 4, replicate 4 0]"

definition bars_padded :: image where
  "bars_padded =
     replicate 8 (replicate 20 0) @ map (\<lambda>r. replicate 8 0 @ r @ replicate 8 0) bars_image @
     replicate 8 (replicate 20 0)"

definition bars_window :: image where
  "bars_window = [replicate 4 0, replicate 4 0, [0, 0, 4, 4], [0, 0, 4, 4]]"

text \<open>The image \<open>[[0, 0], [0, 4]]\<close> padded for \<open>width = 2\<close>, by four zeros on every side.\<close>

definition pane_padded :: image where
  "pane_padded =
     replicate 4 (replicate 10 0) @ [replicate 10 0, replicate 5 0 @ [4] @ replicate 4 0] @
     replicate 4 (replicate 10 0)"

section \<open>Properties of the loop\<close>

lemma iteration_Continue_iff:
  "iteration l ps bs w psf st = Continue st' \<longleftrightarrow>
   (\<exists>m xpix ypix amp mx my sx sy perr g.
      np_max (residual st) = Inr m \<and> \<not> m < ps \<and>
      np_where_first (residual st) m = Inr (xpix, ypix) \<and>
      fit_gaussian l (masked bs (getslice (subim_slice (residual st) w xpix ypix) (residual st))) psf
        = Inr ((amp, mx, my, sx, sy), perr, g) \<and>
      length perr = 5 \<and>
      np_shape g = np_shape (getslice (subim_slice (residual st) w xpix ypix) (residual st)) \<and>
      st' = \<lparr>residual = setslice (\<lambda>old new. old - new) (subim_slice (residual st) w xpix ypix) g (residual st),
             model = setslice (\<lambda>old new. new) (subim_slice (residual st) w xpix ypix) g (model st),
             catalog = catalog st @
               [(amp, real xpix + (real_of_int (w div 2) - mx) - real_of_int (w * 2),
                 real ypix + (real_of_int (w div 2) - my) - real_of_int (w * 2),
                 FWHM * sx, FWHM * sy)]\<rparr>)"
  unfolding iteration_def Let_def
  by (auto split: sum.splits prod.splits if_splits)

lemma iteration_Break_iff:
  "iteration l ps bs w psf st = Break \<longleftrightarrow> (\<exists>m. np_max (residual st) = Inr m \<and> m < ps)"
  unfolding iteration_def Let_def
  by (auto split: sum.splits prod.splits if_splits)

lemma loop_Break: "iteration l ps bs w psf st = Break \<Longrightarrow> loop l ps bs w psf st = Some (Inr st)"
  by (subst loop.simps) simp

lemma loop_Raise: "iteration l ps bs w psf st = Raise e \<Longrightarrow> loop l ps bs w psf st = Some (Inl e)"
  by (subst loop.simps) simp

lemma loop_Continue:
  "iteration l ps bs w psf st = Continue st' \<Longrightarrow> loop l ps bs w psf st = loop l ps bs w psf st'"
  by (subst loop.simps) simp

lemma run_loop:
  "run l ps bs w psf st sts st' \<Longrightarrow> loop l ps bs w psf st = loop l ps bs w psf st'"
  by (induction rule: run.induct) (simp_all add: loop_Continue)

lemma run_catalog_length:
  "run l ps bs w psf st sts st' \<Longrightarrow> length (catalog st') = length (catalog st) + length sts"
  by (induction rule: run.induct) (auto simp: iteration_Continue_iff)

text \<open>Every result of the loop is reached by a run that ends in a break or in a raise.\<close>

lemma loop_run:
  assumes "loop l ps bs w psf st = Some r"
  shows "\<exists>sts st'. run l ps bs w psf st sts st' \<and>
           (case r of Inr s \<Rightarrow> s = st' \<and> iteration l ps bs w psf st' = Break
                    | Inl e \<Rightarrow> iteration l ps bs w psf st' = Raise e)"
  using assms
proof (induction rule: loop.raw_induct[rotated 1, consumes 1])
  case (1 f l ps bs w psf st r)
  show ?case
  proof (cases "iteration l ps bs w psf st")
    case Break
    with 1(2) have "r = Inr st" by simp
    with Break show ?thesis by (auto intro: run_here)
  next
    case (Raise e)
    with 1(2) have "r = Inl e" by simp
    with Raise show ?thesis by (auto intro: run_here)
  next
    case (Continue st1)
    with 1(2) have "f l ps bs w psf st1 = Some r" by simp
    from 1(1)[OF this] obtain sts st' where
      "run l ps bs w psf st1 sts st'"
      "(case r of Inr s \<Rightarrow> s = st' \<and> iteration l ps bs w psf st' = Break
                    | Inl e \<Rightarrow> iteration l ps bs w psf st' = Raise e)" by blast
    with Continue show ?thesis by (blast intro: run_iter)
  qed
qed

text \<open>A run whose first brightest pixel is below the peak threshold returns at once.\<close>

lemma source_finder_no_peak:
  assumes "np_pad data (w * 2) = Inr P" and "np_max P = Inr m" and "m < mad_mean data * peak"
  shows "source_finder l data peak boundary w psf =
           Some (Inr ([], getslice (imslice P (w * 2)) (np_zeros (np_shape P)),
                      getslice (imslice P (w * 2)) P, mad_mean data))"
proof -
  have "iteration l (mad_mean data * peak) (mad_mean data * boundary) w psf (init_state P) = Break"
    using assms(2,3) by (simp add: iteration_Break_iff init_state_def)
  from loop_Break[OF this] show ?thesis
    using assms(1) by (simp add: source_finder_def Let_def init_state_def)
qed

text \<open>A run of the loop that ends in a break returns the state it ended in, cropped.\<close>

lemma source_finder_returns:
  assumes "np_pad data (w * 2) = Inr P"
    and "loop l (mad_mean data * peak) (mad_mean data * boundary) w psf (init_state P) = Some (Inr st)"
  shows "source_finder l data peak boundary w psf =
           Some (Inr (catalog st, getslice (imslice P (w * 2)) (model st),
                      getslice (imslice P (w * 2)) (residual st), mad_mean data))"
  using assms by (simp add: source_finder_def Let_def)

lemma source_finder_raises:
  assumes "np_pad data (w * 2) = Inr P"
    and "loop l (mad_mean data * peak) (mad_mean data * boundary) w psf (init_state P) = Some (Inl e)"
  shows "source_finder l data peak boundary w psf = Some (Inl e)"
  using assms by (simp add: source_finder_def Let_def)

section \<open>Properties of the arrays and of the runs\<close>

lemma same_shape_iff:
  "same_shape a b \<longleftrightarrow> length a = length b \<and> (\<forall>i<length a. length (a ! i) = length (b ! i))"
  by (simp add: same_shape_def list_all2_conv_all_nth)

lemma same_shape_setslice: "same_shape (setslice f s v a) a"
  by (simp add: same_shape_iff setslice_def split: prod.splits)


lemma setslice_nth:
  "i < length a \<Longrightarrow> j < length (a ! i) \<Longrightarrow>
   setslice f s v a ! i ! j =
     (if in_slice s i j then f (a ! i ! j) (v ! (i - fst (fst s)) ! (j - fst (snd s))) else a ! i ! j)"
  by (simp add: setslice_def in_slice_def split: prod.splits)



lemma np_pad_rows:
  assumes "rectangular data" and "0 < pad" and "np_pad data pad = Inr P"
  shows "length P = length data + 2 * nat pad"
    and "snd (np_shape P) = snd (np_shape data) + 2 * nat pad"
    and "\<forall>i<length P. length (P ! i) = snd (np_shape data) + 2 * nat pad"
    and "\<forall>i<length data. \<forall>j<length (data ! i). P ! (i + nat pad) ! (j + nat pad) = data ! i ! j"
proof -
  define p where "p = nat pad"
  define z :: "real list" where "z = replicate (snd (np_shape data) + 2 * p) 0"
  have P: "P = replicate p z @ map (\<lambda>r. replicate p 0 @ r @ replicate p 0) data @ replicate p z"
    using assms(2,3) by (simp add: np_pad_def Let_def p_def z_def)
  have p0: "0 < p" using assms(2) by (simp add: p_def)
  have rl: "\<forall>r\<in>set data. length r = snd (np_shape data)"
    using assms(1) by (simp add: rectangular_def list_all_iff)
  show "length P = length data + 2 * nat pad" by (simp add: P p_def)
  from p0 obtain q where q: "p = Suc q" by (cases p) auto
  show "snd (np_shape P) = snd (np_shape data) + 2 * nat pad"
    by (simp add: P q np_shape_def z_def p_def[symmetric])
  show "\<forall>i<length P. length (P ! i) = snd (np_shape data) + 2 * nat pad"
  proof (intro allI impI)
    fix i assume "i < length P"
    then have "P ! i \<in> set P" by simp
    then have "length (P ! i) = snd (np_shape data) + 2 * p"
      unfolding P using rl by (auto simp: z_def)
    then show "length (P ! i) = snd (np_shape data) + 2 * nat pad" by (simp add: p_def)
  qed
  show "\<forall>i<length data. \<forall>j<length (data ! i). P ! (i + nat pad) ! (j + nat pad) = data ! i ! j"
  proof (intro allI impI)
    fix i j assume i: "i < length data" and j: "j < length (data ! i)"
    have "P ! (i + p) = replicate p 0 @ data ! i @ replicate p 0"
      using i by (simp add: P nth_append)
    then have "P ! (i + p) ! (j + p) = data ! i ! j"
      using j by (simp add: nth_append)
    then show "P ! (i + nat pad) ! (j + nat pad) = data ! i ! j" by (simp add: p_def)
  qed
qed





lemma np_max_bounds:
  assumes "np_max a = Inr m"
  shows "m \<in> set (flatten a)" and "\<forall>x\<in>set (flatten a). x \<le> m"
proof -
  from assms obtain x xs where f: "flatten a = x # xs" and m: "m = fold max xs x"
    by (auto simp: np_max_def split: list.splits)
  have M: "m = Max (set (x # xs))" unfolding m by (rule Max.set_eq_fold[symmetric])
  show "m \<in> set (flatten a)"
    unfolding f M by (rule Max_in) simp_all
  show "\<forall>x\<in>set (flatten a). x \<le> m"
    unfolding f M by (intro ballI Max_ge) simp_all
qed

lemma flatten_nth: "i < length a \<Longrightarrow> j < length (a ! i) \<Longrightarrow> a ! i ! j \<in> set (flatten a)"
  by (auto simp: flatten_def intro!: bexI[of _ "a ! i"])

lemma flatten_elem:
  assumes "x \<in> set (flatten a)"
  shows "\<exists>i j. i < length a \<and> j < length (a ! i) \<and> x = a ! i ! j"
proof -
  from assms obtain r where r: "r \<in> set a" and x: "x \<in> set r" by (auto simp: flatten_def)
  from r obtain i where "i < length a" "a ! i = r" by (auto simp: in_set_conv_nth)
  moreover from x obtain j where "j < length r" "r ! j = x" by (auto simp: in_set_conv_nth)
  ultimately show ?thesis by auto
qed

lemma np_max_mono:
  assumes "same_shape a' a"
    and "\<forall>i<length a. \<forall>j<length (a ! i). a' ! i ! j \<le> a ! i ! j"
    and "np_max a = Inr m" and "np_max a' = Inr m'"
  shows "m' \<le> m"
proof -
  from np_max_bounds(1)[OF assms(4)] flatten_elem obtain i j where
    ij: "i < length a'" "j < length (a' ! i)" and m': "m' = a' ! i ! j" by blast
  from ij assms(1) have ij2: "i < length a" "j < length (a ! i)" by (auto simp: same_shape_iff)
  with assms(2) have "a' ! i ! j \<le> a ! i ! j" by blast
  also have "\<dots> \<le> m" using np_max_bounds(2)[OF assms(3)] flatten_nth[OF ij2] by blast
  finally show ?thesis by (simp add: m')
qed

lemma gauss2D_nonneg: "0 \<le> amp \<Longrightarrow> 0 \<le> gauss2D x y amp mean_x mean_y sigma_x sigma_y"
  by (simp add: gauss2D_def Let_def)

lemma length_np_linspace: "length (np_linspace start stop num) = num"
  by (simp add: np_linspace_def)

lemma fit_gaussian_model:
  assumes "fit_gaussian l win psf = Inr (q, perr, g)"
  shows "g = gauss2D_image (fst (pixel_grid win)) (snd (pixel_grid win)) q"
  using assms by (auto simp: fit_gaussian_def Let_def split: sum.splits option.splits)

lemma model_rows:
  "length (gauss2D_image (fst (pixel_grid win)) (snd (pixel_grid win)) q) = snd (np_shape win)"
  "a < snd (np_shape win) \<Longrightarrow>
     length (gauss2D_image (fst (pixel_grid win)) (snd (pixel_grid win)) q ! a) = fst (np_shape win)"
  by (auto simp: gauss2D_image_def gauss2D_list_def pixel_grid_def np_meshgrid_def Let_def
      length_np_linspace split: prod.splits)

lemma model_nonneg:
  assumes "0 \<le> amp" and "a < snd (np_shape win)" and "b < fst (np_shape win)"
  shows "0 \<le> gauss2D_image (fst (pixel_grid win)) (snd (pixel_grid win))
                (amp, mean_x, mean_y, sigma_x, sigma_y) ! a ! b"
  using assms
  by (simp add: gauss2D_image_def gauss2D_list_def pixel_grid_def np_meshgrid_def Let_def
      length_np_linspace gauss2D_nonneg)

lemma np_shape_masked: "np_shape (masked b a) = np_shape a"
  by (cases a) (simp_all add: np_shape_def masked_def)

lemma rectangular_iff:
  "rectangular a \<longleftrightarrow> (\<forall>i<length a. length (a ! i) = snd (np_shape a))"
  by (simp add: rectangular_def list_all_length)

lemma rectangular_same_shape:
  assumes "rectangular a" and "same_shape a' a"
  shows "rectangular a'"
proof (cases a)
  case Nil
  with assms(2) show ?thesis by (simp add: same_shape_iff rectangular_def)
next
  case (Cons r rs)
  with assms(2) obtain r' rs' where a': "a' = r' # rs'" by (cases a') (auto simp: same_shape_iff)
  from assms(2) Cons a' have "length r' = length r" by (auto simp: same_shape_iff)
  then have "snd (np_shape a') = snd (np_shape a)" by (simp add: np_shape_def Cons a')
  with assms show ?thesis by (simp add: rectangular_iff same_shape_iff)
qed

lemma getslice_shape:
  assumes "rectangular a" and "in_slice s i j" and "i < length a" and "j < length (a ! i)"
  shows "i - fst (fst s) < fst (np_shape (getslice s a))"
    and "j - fst (snd s) < snd (np_shape (getslice s a))"
proof -
  obtain r0 r1 c0 c1 where s: "s = ((r0, r1), (c0, c1))" by (cases s) auto
  from assms(2) have b: "r0 \<le> i" "i < r1" "c0 \<le> j" "j < c1" by (auto simp: s in_slice_def)
  have n: "length (take (r1 - r0) (drop r0 a)) = min (r1 - r0) (length a - r0)" by simp
  show "i - fst (fst s) < fst (np_shape (getslice s a))"
    using b assms(3) by (auto simp: s getslice_def np_shape_def)
  have ne: "take (r1 - r0) (drop r0 a) \<noteq> []" using b assms(3) by auto
  then obtain x xs where x: "take (r1 - r0) (drop r0 a) = x # xs" by (cases "take (r1 - r0) (drop r0 a)") auto
  have "x = take (r1 - r0) (drop r0 a) ! 0" by (simp add: x)
  also have "\<dots> = a ! r0" using b assms(3) by simp
  finally have xr: "x = a ! r0" .
  have "length (a ! r0) = length (a ! i)"
    using assms(1,3) b by (simp add: rectangular_iff)
  then show "j - fst (snd s) < snd (np_shape (getslice s a))"
    using b assms(4) by (auto simp: s getslice_def np_shape_def x xr)
qed

lemma iteration_residual_le:
  assumes "iteration l ps bs w psf st = Continue st'"
    and "rectangular (residual st)"
    and "0 \<le> fst (last (catalog st'))"
  shows "same_shape (residual st') (residual st)"
    and "\<forall>i<length (residual st). \<forall>j<length (residual st ! i).
           residual st' ! i ! j \<le> residual st ! i ! j"
proof -
  from assms(1) obtain m xpix ypix amp mx my sx sy perr g where
    fit: "fit_gaussian l (masked bs (getslice (subim_slice (residual st) w xpix ypix) (residual st))) psf
        = Inr ((amp, mx, my, sx, sy), perr, g)" and
    sh: "np_shape g = np_shape (getslice (subim_slice (residual st) w xpix ypix) (residual st))" and
    r': "residual st' = setslice (\<lambda>old new. old - new) (subim_slice (residual st) w xpix ypix) g (residual st)" and
    c': "fst (last (catalog st')) = amp"
    by (auto simp: iteration_Continue_iff)
  let ?sl = "subim_slice (residual st) w xpix ypix"
  let ?win = "masked bs (getslice ?sl (residual st))"
  have amp: "0 \<le> amp" using assms(3) c' by simp
  have g: "g = gauss2D_image (fst (pixel_grid ?win)) (snd (pixel_grid ?win)) (amp, mx, my, sx, sy)"
    by (rule fit_gaussian_model[OF fit])
  have shw: "np_shape ?win = np_shape (getslice ?sl (residual st))" by (rule np_shape_masked)
  show "same_shape (residual st') (residual st)" by (simp add: r' same_shape_setslice)
  show "\<forall>i<length (residual st). \<forall>j<length (residual st ! i).
           residual st' ! i ! j \<le> residual st ! i ! j"
  proof (intro allI impI)
    fix i j assume ij: "i < length (residual st)" "j < length (residual st ! i)"
    show "residual st' ! i ! j \<le> residual st ! i ! j"
    proof (cases "in_slice ?sl i j")
      case False
      then show ?thesis using ij by (simp add: r' setslice_nth)
    next
      case True
      note gs = getslice_shape[OF assms(2) True ij]
      have rows: "fst (np_shape (getslice ?sl (residual st))) = snd (np_shape ?win)"
        using model_rows(1)[of ?win "(amp, mx, my, sx, sy)"] sh g by (simp add: np_shape_def)
      have a: "i - fst (fst ?sl) < snd (np_shape ?win)" using gs(1) rows by simp
      have "snd (np_shape g) = fst (np_shape ?win)"
      proof -
        from a have "g \<noteq> []" using model_rows(1)[of ?win "(amp, mx, my, sx, sy)"] g by auto
        then have "snd (np_shape g) = length (g ! 0)" by (cases g) (simp_all add: np_shape_def)
        also have "\<dots> = fst (np_shape ?win)"
          using model_rows(2)[of 0 ?win "(amp, mx, my, sx, sy)"] a g by simp
        finally show ?thesis .
      qed
      then have b: "j - fst (snd ?sl) < fst (np_shape ?win)" using gs(2) sh by simp
      have "0 \<le> g ! (i - fst (fst ?sl)) ! (j - fst (snd ?sl))"
        unfolding g by (rule model_nonneg[OF amp a b])
      then show ?thesis using ij True by (simp add: r' setslice_nth)
    qed
  qed
qed

lemma run_catalog_prefix:
  "run l ps bs w psf st sts st' \<Longrightarrow> \<exists>ext. catalog st' = catalog st @ ext"
  by (induction rule: run.induct) (auto simp: iteration_Continue_iff)

lemma run_head: "run l ps bs w psf st (s # sts) st' \<Longrightarrow> s = st"
  by (auto elim: run.cases)

lemma run_Continue:
  "run l ps bs w psf st (s # sts) st' \<Longrightarrow> \<exists>st1. iteration l ps bs w psf st = Continue st1"
  by (auto elim: run.cases)

lemma peak_of_max: "np_max (residual st) = Inr m \<Longrightarrow> peak_of st = m"
  by (simp add: peak_of_def)

lemma iteration_max:
  "iteration l ps bs w psf st = Continue st' \<Longrightarrow> \<exists>m. np_max (residual st) = Inr m"
  by (auto simp: iteration_Continue_iff)

lemma run_peaks_sorted:
  assumes "run l ps bs w psf st sts st'"
    and "rectangular (residual st)"
    and "\<forall>src\<in>set (catalog st'). 0 \<le> fst src"
  shows "sorted_wrt (\<lambda>a b. b \<le> a) (map peak_of sts)"
  using assms
proof (induction rule: run.induct)
  case (run_here st)
  show ?case by simp
next
  case (run_iter st st1 sts st'')
  from run_iter.hyps(1) obtain src where c1: "catalog st1 = catalog st @ [src]"
    by (auto simp: iteration_Continue_iff)
  from run_catalog_prefix[OF run_iter.hyps(2)] c1 have "src \<in> set (catalog st'')" by auto
  with run_iter.prems(2) c1 have amp: "0 \<le> fst (last (catalog st1))" by simp
  note le = iteration_residual_le[OF run_iter.hyps(1) run_iter.prems(1) amp]
  have rect: "rectangular (residual st1)"
    by (rule rectangular_same_shape[OF run_iter.prems(1) le(1)])
  note IH = run_iter.IH[OF rect run_iter.prems(2)]
  show ?case
  proof (cases sts)
    case Nil
    then show ?thesis by simp
  next
    case (Cons s ss)
    with run_iter.hyps(2) have s: "s = st1" by (auto dest: run_head)
    from run_iter.hyps(2) Cons obtain st2 where "iteration l ps bs w psf st1 = Continue st2"
      by (auto dest: run_Continue)
    then obtain m1 where m1: "np_max (residual st1) = Inr m1" by (auto dest: iteration_max)
    from run_iter.hyps(1) obtain m where m: "np_max (residual st) = Inr m"
      by (auto dest: iteration_max)
    have "m1 \<le> m" by (rule np_max_mono[OF le(1) le(2) m m1])
    then have "peak_of s \<le> peak_of st" by (simp add: s peak_of_max[OF m] peak_of_max[OF m1])
    moreover have "transp (\<lambda>a b :: real. b \<le> a)" by (auto simp: transp_def)
    ultimately show ?thesis using IH Cons by (simp add: sorted_wrt2 del: sorted_wrt.simps)
  qed
qed

lemma np_pad_rectangular:
  assumes "rectangular data" and "np_pad data pad = Inr P"
  shows "rectangular P"
proof (cases "0 < pad")
  case True
  from np_pad_rows(2,3)[OF assms(1) True assms(2)] show ?thesis by (simp add: rectangular_iff)
next
  case False
  with assms(2) have "pad = 0" "P = data"
    by (auto simp: np_pad_def Let_def split: if_splits)
  with assms(1) show ?thesis by simp
qed

section \<open>The examples\<close>

text \<open>
  The pixels of the images of the examples are integers or dyadic fractions: their sums,
  noise estimates and thresholds, computed here in exact arithmetic, have the same values
  in double precision. The parameters that the solver fits to \<open>window_a\<close> and \<open>window_b\<close>, and
  the residual left after such a fit, are met in double precision up to the tolerance of
  the solver.
\<close>

subsection \<open>Runs stopped by the first peak test\<close>

text \<open>
  The image \<open>[[-3, -1]]\<close> has noise estimate 1. With \<open>width = 3\<close>, wider than the image,
  it is padded by six zeros on every side; the brightest pixel of the padded image is a
  zero of the margin, and with \<open>peak = 2\<close> the loop breaks in its first iteration. With
  \<open>width = 0\<close> nothing is padded, the brightest pixel is \<open>-1\<close>, the loop breaks in its first
  iteration, and the crop \<^verbatim>\<open>[slice(0, -0), slice(0, -0)]\<close> of the results is empty.
\<close>

lemma faint_pad: "np_pad [[- 3, - 1]] (3 * 2) = Inr faint_padded"
  by code_simp

lemma faint_max: "np_max faint_padded = Inr 0"
  by code_simp

lemma faint_mad: "mad_mean [[- 3, - 1]] = 1"
  by code_simp

lemma faint_run:
  "source_finder l [[- 3, - 1]] 2 b 3 psf = Some (Inr ([], [[0, 0]], [[- 3, - 1]], 1))"
proof -
  have c1: "getslice (imslice faint_padded (3 * 2)) (np_zeros (np_shape faint_padded)) = [[0, 0]]"
    by code_simp
  have c2: "getslice (imslice faint_padded (3 * 2)) faint_padded = [[- 3, - 1]]"
    by code_simp
  have "(0::real) < mad_mean [[- 3, - 1]] * 2"
    by (simp add: faint_mad)
  from source_finder_no_peak[OF faint_pad faint_max this, of l b psf] show ?thesis
    by (simp only: c1 c2 faint_mad)
qed


subsection \<open>The fits of the solver on windows of four by four pixels\<close>

lemma unit_cov_diagonal: "np_diagonal unit_cov = [1, 1, 1, 1, 1]"
  by code_simp

lemma five: "length [1, 1, 1, 1, 1 :: real] = 5"
  by simp

lemma grid_2x2: "pixel_grid [[a, b], [c, d]] = ([[0, 2], [0, 2]], [[0, 0], [2, 2]])"
  by (simp add: pixel_grid_def np_shape_def np_linspace_def np_meshgrid_def Let_def
      upt_rec[of _ "numeral _"] upt_rec[of _ "Suc _"])

lemma grid_4x4: "np_shape w = (4, 4) \<Longrightarrow> pixel_grid w = (grid_x, grid_y)"
  by (simp add: pixel_grid_def np_linspace_def np_meshgrid_def Let_def grid_x_def grid_y_def
      upt_rec[of _ "numeral _"] upt_rec[of _ "Suc _"] numeral_eq_Suc)

lemma ln_b_pos: "0 < ln_b"
  by (simp add: ln_b_def)

lemma exp_ln_b: "exp (- (real n * ln_b)) = (8 / 9) ^ n"
proof -
  have "exp (real n * ln_b) = exp ln_b ^ n" by (rule exp_of_nat_mult)
  also have "exp ln_b = 9 / 8" by (simp add: ln_b_def)
  finally show ?thesis by (simp add: exp_minus power_divide field_simps)
qed

lemma width_a_sq: "width_a\<^sup>2 = 8 / (9 * ln_b)"
  using ln_b_pos by (simp add: width_a_def)

lemma width_b_sq: "width_b\<^sup>2 = 16 / (9 * ln_b)"
  using ln_b_pos by (simp add: width_b_def)

lemma gauss_a:
  "gauss2D x y amp (8 / 3) (8 / 3) width_a width_a
     = amp * exp (- (((3 * x - 8)\<^sup>2 + (3 * y - 8)\<^sup>2) / 16 * ln_b))"
proof -
  have "- ((x - 8 / 3)\<^sup>2) / (2 * width_a\<^sup>2) + - ((y - 8 / 3)\<^sup>2) / (2 * width_a\<^sup>2)
      = - (((3 * x - 8)\<^sup>2 + (3 * y - 8)\<^sup>2) / 16 * ln_b)"
    unfolding width_a_sq using ln_b_pos by (simp add: power2_eq_square field_simps)
  then show ?thesis by (simp add: gauss2D_def Let_def)
qed

lemma gauss_b:
  "gauss2D x y (amp * exp (ln_b / 4)) (10 / 3) (10 / 3) width_b width_b
     = amp * exp (- (((3 * x - 10)\<^sup>2 + (3 * y - 10)\<^sup>2 - 8) / 32 * ln_b))"
proof -
  have "ln_b / 4 + (- ((x - 10 / 3)\<^sup>2) / (2 * width_b\<^sup>2) + - ((y - 10 / 3)\<^sup>2) / (2 * width_b\<^sup>2))
      = - (((3 * x - 10)\<^sup>2 + (3 * y - 10)\<^sup>2 - 8) / 32 * ln_b)"
    unfolding width_b_sq using ln_b_pos by (simp add: power2_eq_square field_simps)
  then show ?thesis by (simp add: gauss2D_def Let_def mult_exp_exp mult.assoc)
qed

text \<open>On the grid of a window of four by four pixels the two Gaussians take the values of
  \<open>window_a\<close> and \<open>window_b\<close>.\<close>

lemma model_a: "gauss2D_image grid_x grid_y fit_a = window_a"
  using exp_ln_b[of 1] exp_ln_b[of 2] exp_ln_b[of 4] exp_ln_b[of 5] exp_ln_b[of 8]
  by (simp add: gauss2D_image_def gauss2D_list_def grid_x_def grid_y_def fit_a_def gauss_a
      window_a_def axis_a_def numeral_eq_Suc)

lemma model_b: "gauss2D_image grid_x grid_y fit_b = window_b"
  using exp_ln_b[of 1] exp_ln_b[of 2] exp_ln_b[of 3] exp_ln_b[of 4] exp_ln_b[of 6]
  by (simp add: gauss2D_image_def gauss2D_list_def grid_x_def grid_y_def fit_b_def gauss_b
      window_b_def axis_b_def numeral_eq_Suc)

lemma model_shape: "np_shape (gauss2D_image grid_x grid_y p) = (4, 4)"
  by (cases p) (simp add: gauss2D_image_def gauss2D_list_def grid_x_def grid_y_def np_shape_def
      numeral_eq_Suc)

lemma flat_model:
  "gauss2D_list (flatten grid_x) (flatten grid_y) p = flatten (gauss2D_image grid_x grid_y p)"
  by (cases p) (simp add: gauss2D_image_def gauss2D_list_def grid_x_def grid_y_def flatten_def
      numeral_eq_Suc)

lemma err_grid:
  "err p grid_x grid_y w = map2 (-) (flatten (gauss2D_image grid_x grid_y p)) (flatten w)"
  by (simp add: err_def flat_model)

lemma err_length: "length (err p grid_x grid_y w) = min 16 (length (flatten w))"
  by (cases p) (simp add: err_def gauss2D_list_def grid_x_def grid_y_def flatten_def numeral_eq_Suc)

lemma window_a_max: "np_max window_a = Inr 43046721"
  by code_simp

lemma window_b_max: "np_max window_b = Inr 42515280"
  by code_simp

lemma window_a_shape: "np_shape window_a = (4, 4)"
  by code_simp

lemma window_b_shape: "np_shape window_b = (4, 4)"
  by code_simp

lemma window_a_length: "length (flatten window_a) = 16"
  by code_simp

lemma window_b_length: "length (flatten window_b) = 16"
  by code_simp

lemma residual_a: "zero_residual (\<lambda>p. err p grid_x grid_y window_a) fit_a"
proof -
  have "list_all (\<lambda>r. r = 0) (map2 (-) (flatten window_a) (flatten window_a))" by code_simp
  then show ?thesis by (simp add: zero_residual_def err_grid model_a)
qed

lemma residual_b: "zero_residual (\<lambda>p. err p grid_x grid_y window_b) fit_b"
proof -
  have "list_all (\<lambda>r. r = 0) (map2 (-) (flatten window_b) (flatten window_b))" by code_simp
  then show ?thesis by (simp add: zero_residual_def err_grid model_b)
qed

lemma residual_ab: "\<not> zero_residual (\<lambda>p. err p grid_x grid_y window_b) fit_a"
proof -
  have "\<not> list_all (\<lambda>r. r = 0) (map2 (-) (flatten window_a) (flatten window_b))" by code_simp
  then show ?thesis by (simp add: zero_residual_def err_grid model_a)
qed

lemma known_lsq_a:
  "known_lsq (\<lambda>p. err p grid_x grid_y window_a) (43046721, m, n, s, t) = Inr (fit_a, Some unit_cov, 1)"
  by (simp add: known_lsq_def err_length window_a_length residual_a)

lemma known_lsq_b:
  "known_lsq (\<lambda>p. err p grid_x grid_y window_b) (42515280, m, n, s, t) = Inr (fit_b, Some unit_cov, 1)"
  by (simp add: known_lsq_def err_length window_b_length residual_ab residual_b)

lemma window_a_fit: "fit_gaussian known_lsq window_a psf = Inr (fit_a, [1, 1, 1, 1, 1], window_a)"
  by (simp add: fit_gaussian_def Let_def window_a_max grid_4x4[OF window_a_shape] known_lsq_a
      unit_cov_diagonal model_a)

lemma window_b_fit: "fit_gaussian known_lsq window_b psf = Inr (fit_b, [1, 1, 1, 1, 1], window_b)"
  by (simp add: fit_gaussian_def Let_def window_b_max grid_4x4[OF window_b_shape] known_lsq_b
      unit_cov_diagonal model_b)

lemma zeros_shape: "np_shape (np_zeros (4, 4)) = (4, 4)"
  by code_simp

lemma zeros_max: "np_max (np_zeros (4, 4)) = Inr 0"
  by code_simp

lemma zeros_length: "length (flatten (np_zeros (4, 4))) = 16"
  by code_simp

lemma zeros_residual: "zero_residual (\<lambda>p. err p grid_x grid_y (np_zeros (4, 4))) (0, m, n, s, t)"
  by (simp add: zero_residual_def err_def gauss2D_list_def gauss2D_def grid_x_def grid_y_def
      flatten_def np_zeros_def numeral_eq_Suc)

lemma known_lsq_zeros:
  "known_lsq (\<lambda>p. err p grid_x grid_y (np_zeros (4, 4))) (0, m, n, s, t) = Inr ((0, m, n, s, t), None, 4)"
  by (simp add: known_lsq_def err_length zeros_length zeros_residual)

lemma zeros_fit: "fit_gaussian known_lsq (np_zeros (4, 4)) psf = Inl ValueError"
  by (simp add: fit_gaussian_def Let_def zeros_max grid_4x4[OF zeros_shape] known_lsq_zeros)

lemma iteration_eval:
  assumes "np_max (residual st) = Inr m" and "\<not> m < ps"
    and "np_where_first (residual st) m = Inr (x, y)"
    and "subim_slice (residual st) w x y = sl"
    and "masked bs (getslice sl (residual st)) = win"
    and "fit_gaussian l win psf = Inr ((amp, mx, my, sx, sy), perr, g)"
    and "length perr = 5" and "np_shape g = np_shape (getslice sl (residual st))"
  shows "iteration l ps bs w psf st = Continue
           \<lparr>residual = setslice (\<lambda>old new. old - new) sl g (residual st),
            model = setslice (\<lambda>old new. new) sl g (model st),
            catalog = catalog st @
              [(amp, real x + (real_of_int (w div 2) - mx) - real_of_int (w * 2),
                real y + (real_of_int (w div 2) - my) - real_of_int (w * 2),
                FWHM * sx, FWHM * sy)]\<rparr>"
  using assms by (simp add: iteration_Continue_iff)

subsection \<open>A run with two detections that the solver fits exactly\<close>

text \<open>
  \<open>twin_image\<close> has noise estimate \<open>1572643431/256\<close>, about 6143138. With \<open>peak = 5\<close>,
  \<open>boundary = 2\<close> and \<open>width = 4\<close> the peak threshold is about 30715692 and the boundary
  threshold about 12286277, below every pixel of the image. The loop detects the pixel of
  value 43046721 and cuts \<open>window_a\<close>, then the first pixel of value 42515280 and cuts
  \<open>window_b\<close>, and breaks in its third iteration on a residual that is zero everywhere. The
  two windows do not overlap.
\<close>

lemma twin_pad: "np_pad twin_image (4 * 2) = Inr twin_padded"
  by code_simp

lemma twin_mad: "mad_mean twin_image = 1572643431 / 256"
  by code_simp

lemma twin_max_0: "np_max (residual (init_state twin_padded)) = Inr 43046721"
  unfolding init_state_def state.simps by code_simp

lemma twin_where_0: "np_where_first (residual (init_state twin_padded)) 43046721 = Inr (10, 10)"
  unfolding init_state_def state.simps by code_simp

lemma twin_slice_0: "subim_slice (residual (init_state twin_padded)) 4 10 10 = ((8, 12), (8, 12))"
  unfolding init_state_def state.simps by code_simp

lemma twin_masked_0:
  "masked (1572643431 / 128) (getslice ((8, 12), (8, 12)) (residual (init_state twin_padded))) = window_a"
  unfolding init_state_def state.simps by code_simp

lemma twin_shape_0:
  "np_shape window_a = np_shape (getslice ((8, 12), (8, 12)) (residual (init_state twin_padded)))"
  unfolding init_state_def state.simps by code_simp

lemma twin_padded_shape: "np_shape twin_padded = (20, 24)"
  by code_simp

lemma twin_iteration_1:
  "iteration known_lsq (7863217155 / 256) (1572643431 / 128) 4 psf (init_state twin_padded)
     = Continue twin_state1"
proof -
  have 2: "\<not> (43046721::real) < 7863217155 / 256" by simp
  show ?thesis
    unfolding iteration_eval[OF twin_max_0 2 twin_where_0 twin_slice_0 twin_masked_0
        window_a_fit[unfolded fit_a_def] five twin_shape_0]
    by (simp add: twin_state1_def init_state_def twin_padded_shape src_a_def)
qed

lemma twin_max_1: "np_max (residual twin_state1) = Inr 42515280"
  unfolding twin_state1_def state.simps by code_simp

lemma twin_where_1: "np_where_first (residual twin_state1) 42515280 = Inr (10, 14)"
  unfolding twin_state1_def state.simps by code_simp

lemma twin_slice_1: "subim_slice (residual twin_state1) 4 10 14 = ((8, 12), (12, 16))"
  unfolding twin_state1_def state.simps by code_simp

lemma twin_masked_1:
  "masked (1572643431 / 128) (getslice ((8, 12), (12, 16)) (residual twin_state1)) = window_b"
  unfolding twin_state1_def state.simps by code_simp

lemma twin_shape_1:
  "np_shape window_b = np_shape (getslice ((8, 12), (12, 16)) (residual twin_state1))"
  unfolding twin_state1_def state.simps by code_simp

lemma twin_iteration_2:
  "iteration known_lsq (7863217155 / 256) (1572643431 / 128) 4 psf twin_state1 = Continue twin_state2"
proof -
  have 2: "\<not> (42515280::real) < 7863217155 / 256" by simp
  show ?thesis
    unfolding iteration_eval[OF twin_max_1 2 twin_where_1 twin_slice_1 twin_masked_1
        window_b_fit[unfolded fit_b_def] five twin_shape_1]
    by (simp add: twin_state2_def src_b_def) (simp add: twin_state1_def)
qed

lemma twin_max_2: "np_max (residual twin_state2) = Inr 0"
  unfolding twin_state2_def twin_state1_def state.simps by code_simp

lemma twin_iteration_3:
  "iteration known_lsq (7863217155 / 256) (1572643431 / 128) 4 psf twin_state2 = Break"
  using twin_max_2 by (simp add: iteration_Break_iff)

lemma twin_run_states:
  "run known_lsq (7863217155 / 256) (1572643431 / 128) 4 psf (init_state twin_padded)
     [init_state twin_padded, twin_state1] twin_state2"
  by (intro run_iter[OF twin_iteration_1] run_iter[OF twin_iteration_2] run_here)

lemma twin_crops:
  "getslice (imslice twin_padded 8) (model twin_state2) = twin_image"
  "getslice (imslice twin_padded 8) (residual twin_state2) = np_zeros (4, 8)"
  unfolding twin_state2_def twin_state1_def state.simps by code_simp+

lemma twin_run:
  "source_finder known_lsq twin_image 5 2 4 psf =
     Some (Inr ([src_a, src_b], twin_image, np_zeros (4, 8), 1572643431 / 256))"
proof -
  have "loop known_lsq (mad_mean twin_image * 5) (mad_mean twin_image * 2) 4 psf
      (init_state twin_padded) = Some (Inr twin_state2)"
    using run_loop[OF twin_run_states] loop_Break[OF twin_iteration_3] by (simp add: twin_mad)
  from source_finder_returns[OF twin_pad this] show ?thesis
    by (simp add: twin_mad twin_crops) (simp add: twin_state2_def)
qed

lemma twin_amplitudes: "(43046721::real) < 42515280 * exp (ln_b / 4)"
proof -
  have "(exp (ln_b / 4)) ^ 4 = exp ln_b"
    by (simp add: exp_of_nat_mult[symmetric])
  also have "\<dots> = 9 / 8" by (simp add: ln_b_def)
  finally have e: "(exp (ln_b / 4)) ^ 4 = 9 / 8" .
  have "(81 / 80 :: real) ^ 4 < 9 / 8" by (simp add: power4_eq_xxxx)
  with e have "(81 / 80 :: real) ^ 4 < (exp (ln_b / 4)) ^ 4" by simp
  then have "(81 / 80 :: real) < exp (ln_b / 4)"
    by (rule power_less_imp_less_base) simp
  then show ?thesis by simp
qed

subsection \<open>A run with one detection, at a peak equal to the threshold\<close>

text \<open>
  \<open>lone_image\<close> has noise estimate \<open>43046721/2\<close>. With \<open>peak = 2\<close> the peak threshold is
  43046721, the value of the brightest pixel; with \<open>boundary = 1/2\<close> the boundary threshold
  is below every pixel of \<open>window_a\<close>. The loop detects that pixel, cuts \<open>window_a\<close> and
  breaks in its second iteration.
\<close>

lemma lone_pad: "np_pad lone_image (4 * 2) = Inr lone_padded"
  by code_simp

lemma lone_mad: "mad_mean lone_image = 43046721 / 2"
  by code_simp

lemma lone_max_0: "np_max (residual (init_state lone_padded)) = Inr 43046721"
  unfolding init_state_def state.simps by code_simp

lemma lone_where_0: "np_where_first (residual (init_state lone_padded)) 43046721 = Inr (10, 10)"
  unfolding init_state_def state.simps by code_simp

lemma lone_slice_0: "subim_slice (residual (init_state lone_padded)) 4 10 10 = ((8, 12), (8, 12))"
  unfolding init_state_def state.simps by code_simp

lemma lone_masked_0:
  "masked (43046721 / 4) (getslice ((8, 12), (8, 12)) (residual (init_state lone_padded))) = window_a"
  unfolding init_state_def state.simps by code_simp

lemma lone_shape_0:
  "np_shape window_a = np_shape (getslice ((8, 12), (8, 12)) (residual (init_state lone_padded)))"
  unfolding init_state_def state.simps by code_simp

lemma lone_padded_shape: "np_shape lone_padded = (20, 24)"
  by code_simp

lemma lone_iteration_1:
  "iteration known_lsq 43046721 (43046721 / 4) 4 psf (init_state lone_padded) = Continue lone_state1"
proof -
  have 2: "\<not> (43046721::real) < 43046721" by simp
  show ?thesis
    unfolding iteration_eval[OF lone_max_0 2 lone_where_0 lone_slice_0 lone_masked_0
        window_a_fit[unfolded fit_a_def] five lone_shape_0]
    by (simp add: lone_state1_def init_state_def lone_padded_shape src_a_def)
qed

lemma lone_max_1: "np_max (residual lone_state1) = Inr 0"
  unfolding lone_state1_def state.simps by code_simp

lemma lone_iteration_2:
  "iteration known_lsq 43046721 (43046721 / 4) 4 psf lone_state1 = Break"
  using lone_max_1 by (simp add: iteration_Break_iff)


lemma lone_crops:
  "getslice (imslice lone_padded 8) (model lone_state1) = lone_model"
  "getslice (imslice lone_padded 8) (residual lone_state1) = lone_residual"
  unfolding lone_state1_def state.simps by code_simp+

lemma lone_run:
  "source_finder known_lsq lone_image 2 (1 / 2) 4 psf =
     Some (Inr ([src_a], lone_model, lone_residual, 43046721 / 2))"
proof -
  have "loop known_lsq (mad_mean lone_image * 2) (mad_mean lone_image * (1 / 2)) 4 psf
      (init_state lone_padded) = Some (Inr lone_state1)"
    using loop_Continue[OF lone_iteration_1] loop_Break[OF lone_iteration_2] by (simp add: lone_mad)
  from source_finder_returns[OF lone_pad this] show ?thesis
    by (simp add: lone_mad lone_crops) (simp add: lone_state1_def)
qed


subsection \<open>A run whose first window is zero after masking\<close>

text \<open>
  \<open>bars_image\<close> has noise estimate 2. With \<open>peak = 1\<close> and \<open>boundary = 3\<close> the peak threshold
  is 2 and the boundary threshold is 6, above every pixel: the first iteration finds the
  brightest pixel, 4, and masks its whole window to zero. The solver returns no covariance
  matrix for that window and \<^verbatim>\<open>np.diagonal\<close> raises. A window that is zero after masking
  needs \<open>boundary \<ge> peak\<close>: with \<open>0 < boundary < peak\<close> and a positive noise estimate the
  brightest pixel that passes the peak test is itself above the boundary threshold and is
  not zero.
\<close>

lemma peak_passes_mask:
  assumes "0 < sigma" and "0 < boundary" and "boundary < peak" and "\<not> max_pix < sigma * peak"
  shows "sigma * boundary < max_pix" and "masked (sigma * boundary) [[max_pix]] = [[max_pix]]"
    and "max_pix \<noteq> 0"
proof -
  have "sigma * boundary < sigma * peak" using assms(1,3) by simp
  with assms(4) show b: "sigma * boundary < max_pix" by simp
  then show "masked (sigma * boundary) [[max_pix]] = [[max_pix]]" by (simp add: masked_def)
  have "0 < sigma * boundary" using assms(1,2) by simp
  with b show "max_pix \<noteq> 0" by simp
qed

lemma bars_pad: "np_pad bars_image (4 * 2) = Inr bars_padded"
  by code_simp

lemma bars_mad: "mad_mean bars_image = 2"
  by code_simp

lemma bars_max: "np_max (residual (init_state bars_padded)) = Inr 4"
  unfolding init_state_def state.simps by code_simp

lemma bars_where: "np_where_first (residual (init_state bars_padded)) 4 = Inr (9, 8)"
  unfolding init_state_def state.simps by code_simp

lemma bars_slice: "subim_slice (residual (init_state bars_padded)) 4 9 8 = ((7, 11), (6, 10))"
  unfolding init_state_def state.simps by code_simp

lemma bars_masked:
  "masked 6 (getslice ((7, 11), (6, 10)) (residual (init_state bars_padded))) = np_zeros (4, 4)"
  unfolding init_state_def state.simps by code_simp

lemma bars_masked_low:
  "masked 1 (getslice ((7, 11), (6, 10)) (residual (init_state bars_padded))) = bars_window"
  unfolding init_state_def state.simps by code_simp

lemma bars_window_shape:
  "np_shape (getslice ((7, 11), (6, 10)) (residual (init_state bars_padded))) = (4, 4)"
  unfolding init_state_def state.simps by code_simp

lemma bars_iteration:
  "iteration known_lsq 2 6 4 psf (init_state bars_padded) = Raise ValueError"
  by (simp add: iteration_def Let_def bars_max bars_where bars_slice bars_masked zeros_fit)

lemma bars_run: "source_finder known_lsq bars_image 1 3 4 psf = Some (Inl ValueError)"
proof -
  have "loop known_lsq (mad_mean bars_image * 1) (mad_mean bars_image * 3) 4 psf (init_state bars_padded)
      = Some (Inl ValueError)"
    using loop_Raise[OF bars_iteration] by (simp add: bars_mad)
  from source_finder_raises[OF bars_pad this] show ?thesis .
qed

subsection \<open>A run whose window has fewer pixels than the model has parameters\<close>

text \<open>
  The image \<open>[[0, 0], [0, 4]]\<close> has noise estimate \<open>3/2\<close>. With \<open>peak = 2\<close>, \<open>boundary = 1\<close> and
  \<open>width = 2\<close> the loop finds the pixel of value 4 and cuts a window of two by two pixels:
  the solver is given four residuals for five parameters and raises \<^verbatim>\<open>TypeError\<close>.
\<close>

lemma pane_pad: "np_pad [[0, 0], [0, 4]] (2 * 2) = Inr pane_padded"
  by code_simp

lemma pane_mad: "mad_mean [[0, 0], [0, 4]] = 3 / 2"
  by code_simp

lemma pane_max: "np_max (residual (init_state pane_padded)) = Inr 4"
  unfolding init_state_def state.simps by code_simp

lemma pane_where: "np_where_first (residual (init_state pane_padded)) 4 = Inr (5, 5)"
  unfolding init_state_def state.simps by code_simp

lemma pane_slice: "subim_slice (residual (init_state pane_padded)) 2 5 5 = ((4, 6), (4, 6))"
  unfolding init_state_def state.simps by code_simp

lemma pane_masked:
  "masked (3 / 2) (getslice ((4, 6), (4, 6)) (residual (init_state pane_padded))) = [[0, 0], [0, 4]]"
  unfolding init_state_def state.simps by code_simp

lemma pane_fit: "fit_gaussian known_lsq [[0, 0], [0, 4]] psf = Inl TypeError"
proof -
  have m: "np_max [[0, 0], [0, 4]] = Inr 4" by code_simp
  show ?thesis
    by (simp add: fit_gaussian_def Let_def m grid_2x2 known_lsq_def err_def gauss2D_list_def
        flatten_def)
qed

lemma pane_iteration:
  "iteration known_lsq 3 (3 / 2) 2 psf (init_state pane_padded) = Raise TypeError"
  by (simp add: iteration_def Let_def pane_max pane_where pane_slice pane_masked pane_fit)

lemma pane_run: "source_finder known_lsq [[0, 0], [0, 4]] 2 1 2 psf = Some (Inl TypeError)"
proof -
  have "loop known_lsq (mad_mean [[0, 0], [0, 4]] * 2) (mad_mean [[0, 0], [0, 4]] * 1) 2 psf
      (init_state pane_padded) = Some (Inl TypeError)"
    using loop_Raise[OF pane_iteration] by (simp add: pane_mad)
  from source_finder_raises[OF pane_pad this] show ?thesis .
qed

section \<open>The noise estimate\<close>

lemma sum_list_abs_nonneg: "0 \<le> sum_list (map (\<lambda>x. \<bar>x - c\<bar>) xs)" for c :: real
  by (induction xs) auto

text \<open>
  C2. For an image with at least one sample, the noise estimate is the arithmetic mean of
  \<open>\<bar>x - \<mu>\<bar>\<close> over all samples, \<open>\<mu>\<close> the arithmetic mean of all samples, and it is never
  negative. A run of the source finder that returns has computed the estimate from the
  input image as it was passed in: it returns that estimate, and every iteration of its
  loop has used the two thresholds derived from it.
\<close>

theorem mad_mean_is_mean_absolute_deviation:
  assumes "flatten a \<noteq> []"
  shows "mad_mean a =
     (\<Sum>x\<leftarrow>flatten a. \<bar>x - (\<Sum>y\<leftarrow>flatten a. y) / real (length (flatten a))\<bar>) / real (length (flatten a))
   \<and> 0 \<le> mad_mean a
   \<and> (source_finder l a peak boundary w psf = Some (Inr (cat, mo, re, s)) \<longrightarrow>
        s = mad_mean a \<and>
        (\<exists>P sts st.
           np_pad a (w * 2) = Inr P \<and>
           run l (mad_mean a * peak) (mad_mean a * boundary) w psf (init_state P) sts st \<and>
           iteration l (mad_mean a * peak) (mad_mean a * boundary) w psf st = Break \<and>
           cat = catalog st))"
proof (intro conjI impI)
  show "mad_mean a =
     (\<Sum>x\<leftarrow>flatten a. \<bar>x - (\<Sum>y\<leftarrow>flatten a. y) / real (length (flatten a))\<bar>) / real (length (flatten a))"
    by (simp add: mad_mean_def np_mean_def)
  show "0 \<le> mad_mean a"
    by (simp add: mad_mean_def np_mean_def sum_list_abs_nonneg)
  assume r: "source_finder l a peak boundary w psf = Some (Inr (cat, mo, re, s))"
  then show "s = mad_mean a"
    by (auto simp: source_finder_def Let_def split: sum.splits option.splits)
  from r obtain P st where P: "np_pad a (w * 2) = Inr P"
    and lp: "loop l (mad_mean a * peak) (mad_mean a * boundary) w psf (init_state P) = Some (Inr st)"
    and c: "cat = catalog st"
    by (auto simp: source_finder_def Let_def split: sum.splits option.splits)
  from loop_run[OF lp] obtain sts where
    "run l (mad_mean a * peak) (mad_mean a * boundary) w psf (init_state P) sts st"
    "iteration l (mad_mean a * peak) (mad_mean a * boundary) w psf st = Break"
    by auto
  with P c show "\<exists>P sts st.
           np_pad a (w * 2) = Inr P \<and>
           run l (mad_mean a * peak) (mad_mean a * boundary) w psf (init_state P) sts st \<and>
           iteration l (mad_mean a * peak) (mad_mean a * boundary) w psf st = Break \<and>
           cat = catalog st"
    by blast
qed

theorem mad_mean_is_mean_absolute_deviation_witness:
  "length (flatten twin_image) = 32 \<and>
   source_finder known_lsq twin_image 5 2 4 3 =
     Some (Inr ([src_a, src_b], twin_image, np_zeros (4, 8), 1572643431 / 256))
   \<and> mad_mean twin_image = 1572643431 / 256"
proof -
  have n: "length (flatten twin_image) = 32" by code_simp
  then have h: "flatten twin_image \<noteq> []" by auto
  show ?thesis
    using mad_mean_is_mean_absolute_deviation[OF h, of known_lsq 5 2 4 3
        "[src_a, src_b]" twin_image "np_zeros (4, 8)" "1572643431 / 256"]
      twin_run[of 3] n
    by simp
qed

section \<open>The peak threshold\<close>

text \<open>
  C1, as stated, fails: the spec has a peak exactly equal to the peak threshold excluded.
  On \<open>lone_image\<close> with \<open>peak = 2\<close>, \<open>boundary = 1/2\<close> and \<open>width = 4\<close> the threshold is
  \<open>2 * 43046721/2 = 43046721\<close>, the value of the brightest pixel, and the run records that
  pixel as a detection: the solver fits its window exactly, with the amplitude 43046721.
\<close>

theorem peak_equal_to_threshold_is_detected:
  "mad_mean lone_image * 2 = 43046721 \<and> np_max lone_padded = Inr 43046721 \<and>
   source_finder known_lsq lone_image 2 (1 / 2) 4 3 =
     Some (Inr ([src_a], lone_model, lone_residual, 43046721 / 2)) \<and>
   fst src_a = 43046721 \<and>
   zero_residual (\<lambda>p. err p (fst (pixel_grid window_a)) (snd (pixel_grid window_a)) window_a) fit_a"
  using lone_run[of 3] lone_max_0 residual_a
  by (simp add: lone_mad init_state_def src_a_def grid_4x4[OF window_a_shape])

text \<open>
  C1, amended. The test is \<^verbatim>\<open>if max_pix<peak_sigma: break\<close>: an iteration breaks exactly
  when the brightest pixel is strictly below the peak threshold. A peak equal to the
  threshold goes on to the fit like a peak one unit above it.
\<close>

theorem loop_breaks_only_below_threshold:
  "np_max (residual st) = Inr max_pix \<Longrightarrow>
   (iteration l peak_sigma bs w psf st = Break) = (max_pix < peak_sigma)"
  by (simp add: iteration_Break_iff)

theorem loop_breaks_only_below_threshold_witness:
  "np_max (residual (init_state lone_padded)) = Inr 43046721 \<and>
   (iteration known_lsq 43046721 (43046721 / 4) 4 3 (init_state lone_padded) = Break)
     = ((43046721::real) < 43046721) \<and>
   (iteration known_lsq 43046722 (43046721 / 4) 4 3 (init_state lone_padded) = Break)
     = ((43046721::real) < 43046722)"
  using lone_max_0
    loop_breaks_only_below_threshold[OF lone_max_0, of known_lsq 43046721 "43046721 / 4" 4 3]
    loop_breaks_only_below_threshold[OF lone_max_0, of known_lsq 43046722 "43046721 / 4" 4 3]
  by simp

section \<open>Failure of the fit\<close>

text \<open>
  C3, as stated, fails. On \<open>[[0, 0], [0, 4]]\<close> with \<open>peak = 2\<close>, \<open>boundary = 1\<close> and \<open>width = 2\<close>
  the least-squares call fails on the window of two by two pixels and its \<^verbatim>\<open>TypeError\<close>
  reaches the caller. On a window that is zero everywhere the solver returns no covariance
  matrix and \<^verbatim>\<open>fit_gaussian\<close> raises \<^verbatim>\<open>ValueError\<close>; on \<open>bars_image\<close> with \<open>peak = 1\<close>,
  \<open>boundary = 3\<close> and \<open>width = 4\<close> the first window is zero after masking and the call ends
  with that exception. Neither call returns a catalogue.
\<close>

theorem singular_fit_raises:
  "source_finder known_lsq [[0, 0], [0, 4]] 2 1 2 1 = Some (Inl TypeError) \<and>
   fit_gaussian known_lsq (np_zeros (4, 4)) 1 = Inl ValueError \<and>
   masked (mad_mean bars_image * 3) (getslice ((7, 11), (6, 10)) bars_padded) = np_zeros (4, 4) \<and>
   source_finder known_lsq bars_image 1 3 4 1 = Some (Inl ValueError)"
  using pane_run[of 1] zeros_fit[of 1] bars_masked bars_run[of 1]
  by (simp add: bars_mad init_state_def)

text \<open>
  C3, amended. \<^verbatim>\<open>fit_gaussian\<close> has no failure value and never reads the solver's flag: when
  the solver returns a covariance matrix the fit is returned as a success whatever the
  flag says, and when it returns none, \<^verbatim>\<open>np.diagonal(None)\<close> raises. An exception raised
  in any iteration ends \<^verbatim>\<open>source_finder\<close> with that exception; no catalogue is returned.
\<close>

theorem fit_failure_is_not_handled:
  "(np_max window = Inr a \<and>
    l (\<lambda>p. err p (fst (pixel_grid window)) (snd (pixel_grid window)) window)
      (a, real (fst (np_shape window) div 2), real (fst (np_shape window) div 2), psf, psf)
      = Inr (q, pcov, ier) \<longrightarrow>
    fit_gaussian l window psf =
      (case pcov of
         None \<Rightarrow> Inl ValueError
       | Some c \<Rightarrow> Inr (q, map (\<lambda>v. sqrt \<bar>v\<bar>) (np_diagonal c),
                        gauss2D_image (fst (pixel_grid window)) (snd (pixel_grid window)) q))) \<and>
   (flatten data \<noteq> [] \<and> np_pad data (w * 2) = Inr P \<and>
    run l (mad_mean data * peak) (mad_mean data * boundary) w psf (init_state P) sts st \<and>
    iteration l (mad_mean data * peak) (mad_mean data * boundary) w psf st = Raise e \<longrightarrow>
    source_finder l data peak boundary w psf = Some (Inl e))"
proof (intro conjI impI)
  assume "np_max window = Inr a \<and>
    l (\<lambda>p. err p (fst (pixel_grid window)) (snd (pixel_grid window)) window)
      (a, real (fst (np_shape window) div 2), real (fst (np_shape window) div 2), psf, psf)
      = Inr (q, pcov, ier)"
  then show "fit_gaussian l window psf =
      (case pcov of
         None \<Rightarrow> Inl ValueError
       | Some c \<Rightarrow> Inr (q, map (\<lambda>v. sqrt \<bar>v\<bar>) (np_diagonal c),
                        gauss2D_image (fst (pixel_grid window)) (snd (pixel_grid window)) q))"
    by (simp add: fit_gaussian_def Let_def split: option.splits)
next
  assume a: "flatten data \<noteq> [] \<and> np_pad data (w * 2) = Inr P \<and>
    run l (mad_mean data * peak) (mad_mean data * boundary) w psf (init_state P) sts st \<and>
    iteration l (mad_mean data * peak) (mad_mean data * boundary) w psf st = Raise e"
  then have "loop l (mad_mean data * peak) (mad_mean data * boundary) w psf (init_state P) = Some (Inl e)"
    using run_loop loop_Raise by metis
  with a show "source_finder l data peak boundary w psf = Some (Inl e)"
    by (simp add: source_finder_raises)
qed

theorem fit_failure_is_not_handled_witness:
  "np_max (np_zeros (4, 4)) = Inr 0 \<and>
   known_lsq (\<lambda>p. err p (fst (pixel_grid (np_zeros (4, 4)))) (snd (pixel_grid (np_zeros (4, 4))))
                (np_zeros (4, 4)))
      (0, real (fst (np_shape (np_zeros (4, 4))) div 2), real (fst (np_shape (np_zeros (4, 4))) div 2), 1, 1)
      = Inr ((0, 2, 2, 1, 1), None, 4) \<and>
   fit_gaussian known_lsq (np_zeros (4, 4)) 1 = Inl ValueError \<and>
   length (flatten bars_image) = 16 \<and>
   np_pad bars_image (4 * 2) = Inr bars_padded \<and>
   run known_lsq (mad_mean bars_image * 1) (mad_mean bars_image * 3) 4 1 (init_state bars_padded) []
     (init_state bars_padded) \<and>
   iteration known_lsq (mad_mean bars_image * 1) (mad_mean bars_image * 3) 4 1 (init_state bars_padded)
     = Raise ValueError \<and>
   source_finder known_lsq bars_image 1 3 4 1 = Some (Inl ValueError)"
proof -
  have c: "known_lsq (\<lambda>p. err p (fst (pixel_grid (np_zeros (4, 4)))) (snd (pixel_grid (np_zeros (4, 4))))
                (np_zeros (4, 4)))
      (0, real (fst (np_shape (np_zeros (4, 4))) div 2), real (fst (np_shape (np_zeros (4, 4))) div 2), 1, 1)
      = Inr ((0, 2, 2, 1, 1), None, 4)"
    using known_lsq_zeros[of 2 2 1 1] by (simp add: grid_4x4[OF zeros_shape] zeros_shape)
  have n: "length (flatten bars_image) = 16" by code_simp
  then have f: "flatten bars_image \<noteq> []" by auto
  have i: "iteration known_lsq (mad_mean bars_image * 1) (mad_mean bars_image * 3) 4 1 (init_state bars_padded)
     = Raise ValueError"
    using bars_iteration[of 1] by (simp add: bars_mad)
  have r: "run known_lsq (mad_mean bars_image * 1) (mad_mean bars_image * 3) 4 1 (init_state bars_padded) []
     (init_state bars_padded)"
    by (rule run_here)
  show ?thesis
    using fit_failure_is_not_handled[of "np_zeros (4, 4)" 0 known_lsq 1 "(0, 2, 2, 1, 1)" None 4
        bars_image 4 bars_padded 1 3 "[]" "init_state bars_padded" ValueError]
      zeros_max c i r bars_pad n f
    by simp
qed

section \<open>Configuration\<close>

text \<open>
  C4, as stated, fails: with \<open>boundary = 5 \<ge> peak = 2\<close> and \<open>width = 3\<close>, wider than the
  image \<open>[[-3, -1]]\<close>, the call returns normally.
\<close>

theorem misconfigured_call_returns:
  "source_finder known_lsq [[- 3, - 1]] 2 5 3 1 = Some (Inr ([], [[0, 0]], [[- 3, - 1]], 1))"
  by (rule faint_run)

text \<open>
  C4, amended. \<^verbatim>\<open>source_finder\<close> compares neither the two multipliers with each other nor
  the width with the image. A negative width is refused by \<^verbatim>\<open>np.pad\<close> with \<^verbatim>\<open>ValueError\<close>,
  after the noise estimate. Every other call goes on to the padding and the loop, and
  returns an empty catalogue, whatever \<open>boundary\<close> is, when no pixel of the padded image
  reaches the peak threshold.
\<close>

theorem configuration_is_not_validated:
  "(w < 0 \<longrightarrow> source_finder l data peak boundary w psf = Some (Inl ValueError)) \<and>
   (flatten data \<noteq> [] \<and> np_pad data (w * 2) = Inr P \<and> np_max P = Inr m \<and> m < mad_mean data * peak \<longrightarrow>
      source_finder l data peak boundary w psf =
        Some (Inr ([], getslice (imslice P (w * 2)) (np_zeros (np_shape P)),
                   getslice (imslice P (w * 2)) P, mad_mean data)))"
proof (intro conjI impI)
  assume "w < 0"
  then show "source_finder l data peak boundary w psf = Some (Inl ValueError)"
    by (simp add: source_finder_def np_pad_def Let_def)
next
  assume "flatten data \<noteq> [] \<and> np_pad data (w * 2) = Inr P \<and> np_max P = Inr m \<and> m < mad_mean data * peak"
  then show "source_finder l data peak boundary w psf =
        Some (Inr ([], getslice (imslice P (w * 2)) (np_zeros (np_shape P)),
                   getslice (imslice P (w * 2)) P, mad_mean data))"
    by (simp add: source_finder_no_peak)
qed

theorem configuration_is_not_validated_witness:
  "(- 1 :: int) < 0 \<and> source_finder known_lsq [[- 3, - 1]] 2 1 (- 1) 1 = Some (Inl ValueError) \<and>
   flatten [[- 3, - 1]] \<noteq> [] \<and> np_pad [[- 3, - 1]] (3 * 2) = Inr faint_padded \<and>
   np_max faint_padded = Inr 0 \<and> 0 < mad_mean [[- 3, - 1]] * 2 \<and>
   source_finder known_lsq [[- 3, - 1]] 2 5 3 1 =
        Some (Inr ([], getslice (imslice faint_padded (3 * 2)) (np_zeros (np_shape faint_padded)),
                   getslice (imslice faint_padded (3 * 2)) faint_padded, mad_mean [[- 3, - 1]]))"
  using configuration_is_not_validated[of "- 1" known_lsq "[[- 3, - 1]]" 2 1 1]
    configuration_is_not_validated[of 3 known_lsq "[[- 3, - 1]]" 2 5 1 faint_padded 0]
    faint_pad faint_max
  by (simp add: faint_mad flatten_def)

section \<open>Images that are zero everywhere\<close>

lemma constant_mad_mean:
  assumes "flatten data \<noteq> []" and "\<forall>x\<in>set (flatten data). x = c"
  shows "mad_mean data = 0"
proof -
  have r: "flatten data = replicate (length (flatten data)) c"
    using assms(2) by (simp add: replicate_length_same)
  have n: "real (length (flatten data)) \<noteq> 0" using assms(1) by simp
  have "sum_list (flatten data) = real (length (flatten data)) * c"
    by (subst r) (simp add: sum_list_replicate)
  then have mu: "np_mean (flatten data) = c"
    using n by (simp add: np_mean_def)
  have z: "map (\<lambda>x. \<bar>x - c\<bar>) (flatten data) = replicate (length (flatten data)) 0"
    by (subst r) simp
  have "mad_mean data = np_mean (map (\<lambda>x. \<bar>x - c\<bar>) (flatten data))"
    by (simp add: mad_mean_def mu)
  also have "\<dots> = np_mean (replicate (length (flatten data)) 0)"
    by (simp only: z)
  also have "\<dots> = 0"
    by (simp add: np_mean_def sum_list_replicate)
  finally show ?thesis .
qed

lemma funpow_max_zero: "(max (0::real) ^^ n) 0 = 0"
  by (induction n) simp_all

lemma zero_np_max:
  assumes "flatten P \<noteq> []" and "\<forall>x\<in>set (flatten P). x = 0"
  shows "np_max P = Inr 0"
proof -
  have r: "flatten P = replicate (length (flatten P)) 0"
    using assms(2) by (simp add: replicate_length_same)
  obtain n where n: "length (flatten P) = Suc n"
    using assms(1) by (cases "flatten P") auto
  have "flatten P = 0 # replicate n 0"
    by (subst r) (simp add: n)
  then show ?thesis by (simp add: np_max_def funpow_max_zero)
qed

lemma where_first_origin:
  assumes "P \<noteq> []" and "P ! 0 \<noteq> []" and "P ! 0 ! 0 = v"
  shows "np_where_first P v = Inr (0, 0)"
proof -
  obtain n where n: "length P = Suc n" using assms(1) by (cases P) auto
  obtain k where k: "length (P ! 0) = Suc k" using assms(2) by (cases "P ! 0") auto
  have 1: "[0..<length P] = 0 # [1..<Suc n]" by (simp add: n upt_conv_Cons)
  have 2: "[0..<length (P ! 0)] = 0 # [1..<Suc k]" by (simp add: k upt_conv_Cons)
  show ?thesis
    unfolding np_where_first_def 1 by (simp add: 2 assms(3))
qed

lemma rectangular_first_row:
  assumes "rectangular a" and "flatten a \<noteq> []"
  shows "a \<noteq> []" and "a ! 0 \<noteq> []"
proof -
  show ne: "a \<noteq> []" using assms(2) by (auto simp: flatten_def)
  then obtain r rs where a: "a = r # rs" by (cases a) auto
  show "a ! 0 \<noteq> []"
  proof
    assume "a ! 0 = []"
    then have "r = []" by (simp add: a)
    then have "\<forall>x\<in>set a. x = []"
      using assms(1) by (auto simp: rectangular_def list_all_iff a np_shape_def)
    then have "flatten a = []" by (simp add: flatten_def)
    with assms(2) show False by simp
  qed
qed

text \<open>The window around the pixel \<open>(0, 0)\<close> is \<^verbatim>\<open>[slice(-width/2, width/2), \<dots>]\<close>: its lower
  bound counts from the end of the axis, and the window has no rows.\<close>

lemma window_at_origin:
  assumes "0 \<le> w" and "2 * nat (w div 2) \<le> length P"
  shows "getslice (subim_slice P w 0 0) P = []"
proof -
  define h where "h = nat (w div 2)"
  have hw: "w div 2 = int h" using assms(1) by (simp add: h_def)
  obtain r0 r1 where s: "slice_indices (- (w div 2)) (w div 2) (fst (np_shape P)) = (r0, r1)"
    by fastforce
  have "r1 \<le> r0"
    using s assms(2) unfolding hw h_def[symmetric]
    by (auto simp: slice_indices_def Let_def np_shape_def split: if_splits)
  then show ?thesis
    by (simp add: getslice_def subim_slice_def s split: prod.splits)
qed

lemma empty_window_fit: "fit_gaussian l [] psf = Inl ValueError"
  by (simp add: fit_gaussian_def np_max_def flatten_def)

lemma np_pad_zero_image:
  assumes "rectangular data" and "flatten data \<noteq> []" and "\<forall>x\<in>set (flatten data). x = 0"
    and "np_pad data pad = Inr P"
  shows "rectangular P" and "flatten P \<noteq> []" and "\<forall>x\<in>set (flatten P). x = 0"
    and "length data + 2 * nat pad = length P"
proof -
  show "rectangular P" by (rule np_pad_rectangular[OF assms(1,4)])
  define z :: "real list" where "z = replicate (snd (np_shape data) + 2 * nat pad) 0"
  have P: "P = replicate (nat pad) z @ map (\<lambda>r. replicate (nat pad) 0 @ r @ replicate (nat pad) 0) data @
              replicate (nat pad) z"
    using assms(4) by (auto simp: np_pad_def Let_def z_def split: if_splits)
  show "length data + 2 * nat pad = length P" by (simp add: P)
  from assms(2) obtain r where r: "r \<in> set data" "r \<noteq> []" by (auto simp: flatten_def)
  then have "replicate (nat pad) 0 @ r @ replicate (nat pad) 0 \<in> set P"
    "replicate (nat pad) 0 @ r @ replicate (nat pad) 0 \<noteq> []"
    by (auto simp: P)
  then show "flatten P \<noteq> []" unfolding flatten_def by (metis concat_eq_Nil_conv)
  show "\<forall>x\<in>set (flatten P). x = 0"
    using assms(3) by (auto simp: P flatten_def z_def)
qed

lemma zero_image_iteration:
  assumes "rectangular P" and "flatten P \<noteq> []" and "\<forall>x\<in>set (flatten P). x = 0"
    and "0 \<le> w" and "2 * nat (w div 2) \<le> length P"
  shows "iteration l 0 0 w psf (init_state P) = Raise ValueError"
proof -
  note fr = rectangular_first_row[OF assms(1,2)]
  have "P ! 0 ! 0 \<in> set (flatten P)"
    using fr by (intro flatten_nth) auto
  with assms(3) have z: "P ! 0 ! 0 = 0" by blast
  have 1: "np_max P = Inr 0" by (rule zero_np_max[OF assms(2,3)])
  have 2: "np_where_first P 0 = Inr (0, 0)" by (rule where_first_origin[OF fr z])
  have 3: "getslice (subim_slice P w 0 0) P = []" by (rule window_at_origin[OF assms(4,5)])
  show ?thesis
    by (simp add: iteration_def Let_def init_state_def 1 2 3 masked_def empty_window_fit)
qed

lemma zeros_all_zero: "\<forall>x\<in>set (flatten (np_zeros sh)). x = 0"
  by (auto simp: np_zeros_def flatten_def)

lemma zeros_rectangular: "rectangular (np_zeros sh)"
  by (cases "fst sh") (simp_all add: np_zeros_def rectangular_def np_shape_def list_all_iff)

text \<open>
  C5, as stated, fails in its second half: the image of four by four zeros has noise
  estimate 0, both thresholds are 0, and the peak test \<open>0 < 0\<close> does not stop the loop. With
  \<open>width = 4\<close> the brightest pixel is found at the corner \<open>(0, 0)\<close> of the padded image, its
  window \<^verbatim>\<open>[slice(-2, 2), slice(-2, 2)]\<close> is empty, and \<^verbatim>\<open>data.max()\<close> raises: the call
  returns no catalogue.
\<close>

theorem zero_image_raises:
  "mad_mean (np_zeros (4, 4)) = 0 \<and>
   np_pad (np_zeros (4, 4)) (4 * 2) = Inr (np_zeros (20, 20)) \<and>
   np_max (np_zeros (20, 20)) = Inr 0 \<and>
   getslice (subim_slice (np_zeros (20, 20)) 4 0 0) (np_zeros (20, 20)) = [] \<and>
   source_finder known_lsq (np_zeros (4, 4)) 5 2 4 1 = Some (Inl ValueError)"
proof -
  have m: "mad_mean (np_zeros (4, 4)) = 0" by code_simp
  have p: "np_pad (np_zeros (4, 4)) (4 * 2) = Inr (np_zeros (20, 20))" by code_simp
  have x: "np_max (np_zeros (20, 20)) = Inr 0" by code_simp
  have g: "getslice (subim_slice (np_zeros (20, 20)) 4 0 0) (np_zeros (20, 20)) = []" by code_simp
  have n: "length (flatten (np_zeros (20, 20))) = 400" by code_simp
  then have f: "flatten (np_zeros (20, 20)) \<noteq> []" by auto
  have "iteration known_lsq 0 0 4 1 (init_state (np_zeros (20, 20))) = Raise ValueError"
    by (rule zero_image_iteration[OF zeros_rectangular f zeros_all_zero]) (simp_all add: np_zeros_def)
  then have "loop known_lsq (mad_mean (np_zeros (4, 4)) * 5) (mad_mean (np_zeros (4, 4)) * 2) 4 1
      (init_state (np_zeros (20, 20))) = Some (Inl ValueError)"
    by (simp add: m loop_Raise)
  from source_finder_raises[OF p this] m p x g show ?thesis by simp
qed

text \<open>
  C5, amended. For every image that is zero everywhere and has at least one sample, the
  noise estimate is 0 and both thresholds are 0; the brightest pixel of the padded image,
  0, is not below the peak threshold, so the loop does not stop at its first test. Its
  first iteration cuts the empty window at the corner \<open>(0, 0)\<close> and raises \<^verbatim>\<open>ValueError\<close>:
  the call returns no catalogue, for every solver, width, multipliers and initial width.
  (The sums of a zero image are exact in floating point. For a constant image that is not
  zero the noise estimate depends on the rounding of its mean, and nothing is stated.)
\<close>

theorem zero_image_is_not_skipped:
  assumes "rectangular data" and "flatten data \<noteq> []" and "\<forall>x\<in>set (flatten data). x = 0"
  shows "mad_mean data = 0 \<and> mad_mean data * peak = 0 \<and> mad_mean data * boundary = 0 \<and>
         source_finder l data peak boundary w psf = Some (Inl ValueError)"
proof -
  have z: "mad_mean data = 0" by (rule constant_mad_mean[OF assms(2,3)])
  have "source_finder l data peak boundary w psf = Some (Inl ValueError)"
  proof (cases "w < 0")
    case True
    then show ?thesis by (simp add: source_finder_def np_pad_def Let_def)
  next
    case False
    then obtain P where P: "np_pad data (w * 2) = Inr P" by (simp add: np_pad_def Let_def)
    note pz = np_pad_zero_image[OF assms P]
    have "2 * nat (w div 2) \<le> length P"
      using False pz(4) by auto
    from zero_image_iteration[OF pz(1-3) _ this, of l psf] False
    have "iteration l 0 0 w psf (init_state P) = Raise ValueError" by simp
    then have "loop l (mad_mean data * peak) (mad_mean data * boundary) w psf (init_state P)
        = Some (Inl ValueError)"
      by (simp add: z loop_Raise)
    from source_finder_raises[OF P this] show ?thesis .
  qed
  with z show ?thesis by simp
qed

theorem zero_image_is_not_skipped_witness:
  "rectangular (np_zeros (2, 3)) \<and> flatten (np_zeros (2, 3)) = replicate 6 0 \<and>
   mad_mean (np_zeros (2, 3)) = 0 \<and>
   source_finder known_lsq (np_zeros (2, 3)) 5 2 2 1 = Some (Inl ValueError)"
proof -
  have n: "flatten (np_zeros (2, 3)) = replicate 6 0" by code_simp
  then have f: "flatten (np_zeros (2, 3)) \<noteq> []" by auto
  show ?thesis
    using zero_image_is_not_skipped[OF zeros_rectangular f zeros_all_zero, of 5 2 known_lsq 2 1]
      zeros_rectangular[of "(2, 3)"] n
    by simp
qed

section \<open>Position and size of a detection\<close>

text \<open>
  C7. An iteration that fits a detection at the peak \<open>(xpix, ypix)\<close> appends the record
  with \<open>pos_x = xpix + (width/2 - mean_x) - pad\<close>, \<open>pos_y = ypix + (width/2 - mean_y) - pad\<close>,
  \<open>pad = 2 * width\<close>, and the sizes \<open>2 * sqrt (2 * ln 2)\<close> times the fitted widths. Here
  \<open>width/2\<close> is Python 2's integer division; for an even width, which the spec requires,
  it is half the width.
\<close>

theorem recorded_position_and_size:
  assumes "iteration l ps bs width psf st = Continue st'"
    and "np_max (residual st) = Inr max_pix"
    and "np_where_first (residual st) max_pix = Inr (xpix, ypix)"
    and "fit_gaussian l (masked bs (getslice (subim_slice (residual st) width xpix ypix) (residual st))) psf
           = Inr ((amp, mean_x, mean_y, sigma_x, sigma_y), perr, g)"
  shows "catalog st' = catalog st @
           [(amp,
             real xpix + (real_of_int (width div 2) - mean_x) - real_of_int (2 * width),
             real ypix + (real_of_int (width div 2) - mean_y) - real_of_int (2 * width),
             2 * sqrt (2 * ln 2) * sigma_x,
             2 * sqrt (2 * ln 2) * sigma_y)]
         \<and> (even width \<longrightarrow> real_of_int (width div 2) = real_of_int width / 2)"
proof
  from assms show "catalog st' = catalog st @
           [(amp,
             real xpix + (real_of_int (width div 2) - mean_x) - real_of_int (2 * width),
             real ypix + (real_of_int (width div 2) - mean_y) - real_of_int (2 * width),
             2 * sqrt (2 * ln 2) * sigma_x,
             2 * sqrt (2 * ln 2) * sigma_y)]"
    by (auto simp: iteration_Continue_iff FWHM_def mult.commute)
  show "even width \<longrightarrow> real_of_int (width div 2) = real_of_int width / 2"
    by (auto elim!: evenE)
qed

theorem recorded_position_and_size_witness:
  "iteration known_lsq (7863217155 / 256) (1572643431 / 128) 4 3 twin_state1 = Continue twin_state2 \<and>
   np_max (residual twin_state1) = Inr 42515280 \<and>
   np_where_first (residual twin_state1) 42515280 = Inr (10, 14) \<and>
   fit_gaussian known_lsq
     (masked (1572643431 / 128) (getslice (subim_slice (residual twin_state1) 4 10 14)
        (residual twin_state1))) 3
     = Inr ((42515280 * exp (ln_b / 4), 10 / 3, 10 / 3, width_b, width_b), [1, 1, 1, 1, 1], window_b) \<and>
   even (4 :: int) \<and>
   catalog twin_state2 =
     [src_a,
      (42515280 * exp (ln_b / 4), 2 / 3, 14 / 3, 2 * sqrt (2 * ln 2) * width_b,
       2 * sqrt (2 * ln 2) * width_b)]"
proof -
  have h4: "fit_gaussian known_lsq
     (masked (1572643431 / 128) (getslice (subim_slice (residual twin_state1) 4 10 14)
        (residual twin_state1))) 3
     = Inr ((42515280 * exp (ln_b / 4), 10 / 3, 10 / 3, width_b, width_b), [1, 1, 1, 1, 1], window_b)"
    by (simp add: twin_slice_1 twin_masked_1 window_b_fit[unfolded fit_b_def])
  have c: "catalog twin_state1 = [src_a]" by (simp add: twin_state1_def)
  show ?thesis
    using recorded_position_and_size[OF twin_iteration_2 twin_max_1 twin_where_1 h4]
      twin_iteration_2[of 3] twin_max_1 twin_where_1 h4 c
    by simp
qed

section \<open>The grid of the fit\<close>

text \<open>
  C8. The spec has the coordinates \<open>0..width-1\<close> on each axis. The code calls
  \<^verbatim>\<open>np.linspace(0, npix, npix)\<close>, whose last sample is \<open>npix\<close>: for a window of two by
  two pixels the coordinates on each axis are 0 and 2, not 0 and 1.
\<close>

theorem fit_grid_of_2x2_window:
  "pixel_grid [[0, 0], [0, 4]] = ([[0, 2], [0, 2]], [[0, 0], [2, 2]]) \<and>
   np_linspace 0 2 2 = [0, 2] \<and> np_linspace 0 2 2 \<noteq> [0, 1]"
  by (simp add: grid_2x2) (simp add: np_linspace_def upt_rec[of _ "numeral _"] upt_rec[of _ "Suc _"])

section \<open>One record for every completed iteration\<close>

text \<open>
  C10, as stated, fails: in the first iteration on \<open>bars_image\<close> with \<open>peak = 1\<close>,
  \<open>boundary = 3\<close> and \<open>width = 4\<close> the peak, 4, passes the threshold test, 2, and the
  least-squares call returns a parameter vector, the initial guess, but no covariance
  matrix: the iteration raises before a record is appended.
\<close>

theorem parameter_vector_without_covariance:
  "np_max (residual (init_state bars_padded)) = Inr 4 \<and> \<not> (4::real) < 2 \<and>
   masked 6 (getslice ((7, 11), (6, 10)) (residual (init_state bars_padded))) = np_zeros (4, 4) \<and>
   known_lsq (\<lambda>p. err p (fst (pixel_grid (np_zeros (4, 4)))) (snd (pixel_grid (np_zeros (4, 4))))
                (np_zeros (4, 4)))
     (0, 2, 2, 1, 1) = Inr ((0, 2, 2, 1, 1), None, 4) \<and>
   iteration known_lsq 2 6 4 1 (init_state bars_padded) = Raise ValueError"
  using bars_max bars_masked known_lsq_zeros[of 2 2 1 1] bars_iteration[of 1]
  by (simp add: grid_4x4[OF zeros_shape])

text \<open>
  C10, amended. In every iteration whose peak passes the threshold test and whose call of
  \<^verbatim>\<open>fit_gaussian\<close> returns (the solver gave a parameter vector and a covariance matrix with
  five diagonal entries, and the model has the shape of the window), exactly one record
  is appended and the model is subtracted from the residual window. The fitted amplitude
  is not inspected. The catalogue holds one record for each completed iteration.
\<close>

theorem every_fitted_detection_is_recorded:
  assumes "run l ps bs w psf (init_state P) sts st"
    and "np_max (residual st) = Inr max_pix" and "\<not> max_pix < ps"
    and "np_where_first (residual st) max_pix = Inr (xpix, ypix)"
    and "sl = subim_slice (residual st) w xpix ypix"
    and "fit_gaussian l (masked bs (getslice sl (residual st))) psf
           = Inr ((amp, mean_x, mean_y, sigma_x, sigma_y), perr, g)"
    and "length perr = 5" and "np_shape g = np_shape (getslice sl (residual st))"
  shows "length (catalog st) = length sts \<and>
         (\<exists>pos_x pos_y size_x size_y.
            iteration l ps bs w psf st = Continue
              \<lparr>residual = setslice (\<lambda>old new. old - new) sl g (residual st),
               model = setslice (\<lambda>old new. new) sl g (model st),
               catalog = catalog st @ [(amp, pos_x, pos_y, size_x, size_y)]\<rparr>)"
proof -
  have "iteration l ps bs w psf st = Continue
             \<lparr>residual = setslice (\<lambda>old new. old - new) sl g (residual st),
              model = setslice (\<lambda>old new. new) sl g (model st),
              catalog = catalog st @
                [(amp, real xpix + (real_of_int (w div 2) - mean_x) - real_of_int (w * 2),
                  real ypix + (real_of_int (w div 2) - mean_y) - real_of_int (w * 2),
                  FWHM * sigma_x, FWHM * sigma_y)]\<rparr>"
    using assms(2-8) by (simp add: iteration_Continue_iff)
  moreover have "length (catalog st) = length sts"
    using run_catalog_length[OF assms(1)] by (simp add: init_state_def)
  ultimately show ?thesis by blast
qed

text \<open>
  The theorem is used twice: at the second iteration of the run on \<open>twin_image\<close>, after one
  completed iteration, and at the first iteration on \<open>bars_image\<close> with \<open>boundary = 1/2\<close> for
  a solver that answers with the amplitude \<open>-1\<close>: the record of amplitude \<open>-1\<close> is appended
  and its model subtracted like any other.
\<close>

theorem every_fitted_detection_is_recorded_witness:
  "run known_lsq (7863217155 / 256) (1572643431 / 128) 4 3 (init_state twin_padded)
     [init_state twin_padded] twin_state1 \<and>
   np_max (residual twin_state1) = Inr 42515280 \<and> \<not> (42515280::real) < 7863217155 / 256 \<and>
   np_where_first (residual twin_state1) 42515280 = Inr (10, 14) \<and>
   ((8, 12), (12, 16)) = subim_slice (residual twin_state1) 4 10 14 \<and>
   fit_gaussian known_lsq (masked (1572643431 / 128) (getslice ((8, 12), (12, 16)) (residual twin_state1))) 3
     = Inr ((42515280 * exp (ln_b / 4), 10 / 3, 10 / 3, width_b, width_b), [1, 1, 1, 1, 1], window_b) \<and>
   length [1, 1, 1, 1, 1 :: real] = 5 \<and>
   np_shape window_b = np_shape (getslice ((8, 12), (12, 16)) (residual twin_state1)) \<and>
   length (catalog twin_state1) = length [init_state twin_padded] \<and>
   (\<exists>pos_x pos_y size_x size_y.
      iteration known_lsq (7863217155 / 256) (1572643431 / 128) 4 3 twin_state1 = Continue
        \<lparr>residual = setslice (\<lambda>old new. old - new) ((8, 12), (12, 16)) window_b (residual twin_state1),
         model = setslice (\<lambda>old new. new) ((8, 12), (12, 16)) window_b (model twin_state1),
         catalog = catalog twin_state1 @ [(42515280 * exp (ln_b / 4), pos_x, pos_y, size_x, size_y)]\<rparr>) \<and>
   np_max (residual (init_state bars_padded)) = Inr 4 \<and> \<not> (4::real) < 2 \<and>
   np_where_first (residual (init_state bars_padded)) 4 = Inr (9, 8) \<and>
   ((7, 11), (6, 10)) = subim_slice (residual (init_state bars_padded)) 4 9 8 \<and>
   fit_gaussian (\<lambda>func x0. if length (func x0) < 5 then Inl TypeError
                           else Inr ((- 1, 2, 2, 1, 1), Some unit_cov, 1))
     (masked 1 (getslice ((7, 11), (6, 10)) (residual (init_state bars_padded)))) 1
     = Inr ((- 1, 2, 2, 1, 1), [1, 1, 1, 1, 1], gauss2D_image grid_x grid_y (- 1, 2, 2, 1, 1)) \<and>
   (\<exists>pos_x pos_y size_x size_y.
      iteration (\<lambda>func x0. if length (func x0) < 5 then Inl TypeError
                             else Inr ((- 1, 2, 2, 1, 1), Some unit_cov, 1))
          2 1 4 1 (init_state bars_padded) = Continue
        \<lparr>residual = setslice (\<lambda>old new. old - new) ((7, 11), (6, 10))
                      (gauss2D_image grid_x grid_y (- 1, 2, 2, 1, 1)) (residual (init_state bars_padded)),
         model = setslice (\<lambda>old new. new) ((7, 11), (6, 10))
                   (gauss2D_image grid_x grid_y (- 1, 2, 2, 1, 1)) (model (init_state bars_padded)),
         catalog = catalog (init_state bars_padded) @ [(- 1, pos_x, pos_y, size_x, size_y)]\<rparr>)"
proof -
  let ?ps = "7863217155 / 256 :: real" and ?bs = "1572643431 / 128 :: real"
  have a1: "run known_lsq ?ps ?bs 4 3 (init_state twin_padded) [init_state twin_padded] twin_state1"
    by (intro run_iter[OF twin_iteration_1] run_here)
  have a3: "\<not> (42515280::real) < ?ps" by simp
  have a5: "((8, 12), (12, 16)) = subim_slice (residual twin_state1) 4 10 14"
    by (simp add: twin_slice_1)
  have a6: "fit_gaussian known_lsq (masked ?bs (getslice ((8, 12), (12, 16)) (residual twin_state1))) 3
     = Inr ((42515280 * exp (ln_b / 4), 10 / 3, 10 / 3, width_b, width_b), [1, 1, 1, 1, 1], window_b)"
    by (simp add: twin_masked_1 window_b_fit[unfolded fit_b_def])
  note A = every_fitted_detection_is_recorded[OF a1 twin_max_1 a3 twin_where_1 a5 a6 five twin_shape_1]
  let ?l = "(\<lambda>func x0. if length (func x0) < 5 then Inl TypeError
                        else Inr ((- 1, 2, 2, 1, 1), Some unit_cov, 1)) :: lsq"
  let ?g = "gauss2D_image grid_x grid_y (- 1, 2, 2, 1, 1)"
  have b1: "run ?l 2 1 4 1 (init_state bars_padded) [] (init_state bars_padded)"
    by (rule run_here)
  have b3: "\<not> (4::real) < 2" by simp
  have b5: "((7, 11), (6, 10)) = subim_slice (residual (init_state bars_padded)) 4 9 8"
    by (simp add: bars_slice)
  have m: "np_max bars_window = Inr 4" by code_simp
  have s: "np_shape bars_window = (4, 4)" by code_simp
  have n: "length (flatten bars_window) = 16" by code_simp
  have b6: "fit_gaussian ?l (masked 1 (getslice ((7, 11), (6, 10)) (residual (init_state bars_padded)))) 1
     = Inr ((- 1, 2, 2, 1, 1), [1, 1, 1, 1, 1], ?g)"
    by (simp add: bars_masked_low fit_gaussian_def Let_def m grid_4x4[OF s] err_length n
        unit_cov_diagonal)
  have b8: "np_shape ?g = np_shape (getslice ((7, 11), (6, 10)) (residual (init_state bars_padded)))"
    by (simp add: model_shape bars_window_shape)
  note B = every_fitted_detection_is_recorded[OF b1 bars_max b3 bars_where b5 b6 five b8]
  from A B a1 twin_max_1 a3 twin_where_1 a5 a6 five twin_shape_1 bars_max b3 bars_where b5 b6
  show ?thesis by blast
qed

section \<open>Model and residual\<close>





section \<open>Order of the detections\<close>

text \<open>
  C6, as stated, fails: the amplitude of a record is the amplitude that the solver
  returns, and nothing in the loop relates it to the brightest pixel or to the earlier
  records. On \<open>twin_image\<close> with \<open>peak = 5\<close>, \<open>boundary = 2\<close> and \<open>width = 4\<close> the first
  detection has the brightest pixel 43046721 and the fitted amplitude 43046721; the second
  has the brightest pixel 42515280 and, its Gaussian being centred between two pixels, the
  fitted amplitude 42515280 times the fourth root of \<open>9/8\<close>, about 43785788, which is larger. Both
  fits leave no residual.
\<close>

theorem fainter_peak_larger_amplitude:
  "source_finder known_lsq twin_image 5 2 4 3 =
     Some (Inr ([src_a, src_b], twin_image, np_zeros (4, 8), 1572643431 / 256)) \<and>
   map fst [src_a, src_b] = [43046721, 42515280 * exp (ln_b / 4)] \<and>
   (43046721::real) < 42515280 * exp (ln_b / 4) \<and>
   \<not> sorted_wrt (\<lambda>a b. b \<le> a) (map fst [src_a, src_b]) \<and>
   zero_residual (\<lambda>p. err p (fst (pixel_grid window_a)) (snd (pixel_grid window_a)) window_a) fit_a \<and>
   zero_residual (\<lambda>p. err p (fst (pixel_grid window_b)) (snd (pixel_grid window_b)) window_b) fit_b"
  using twin_run[of 3] twin_amplitudes residual_a residual_b
  by (simp add: src_a_def src_b_def grid_4x4[OF window_a_shape] grid_4x4[OF window_b_shape])

text \<open>
  C6, amended. In every run that returns and whose recorded amplitudes are all
  non-negative, the brightest pixels at which the successive records were detected are
  non-increasing, one for each record: a fitted model of non-negative amplitude is
  non-negative everywhere, so subtracting it never raises a pixel of the residual.
\<close>

theorem peaks_are_detected_brightest_first:
  assumes rect: "rectangular data" and "flatten data \<noteq> []"
    and P: "np_pad data (w * 2) = Inr P"
    and run: "run l (mad_mean data * peak) (mad_mean data * boundary) w psf (init_state P) sts st"
    and brk: "iteration l (mad_mean data * peak) (mad_mean data * boundary) w psf st = Break"
    and amp: "\<forall>src\<in>set (catalog st). 0 \<le> fst src"
  shows "(\<exists>mo re. source_finder l data peak boundary w psf
                     = Some (Inr (catalog st, mo, re, mad_mean data))) \<and>
         length (catalog st) = length sts \<and>
         sorted_wrt (\<lambda>a b. b \<le> a) (map peak_of sts)"
proof (intro conjI)
  have "loop l (mad_mean data * peak) (mad_mean data * boundary) w psf (init_state P) = Some (Inr st)"
    using run_loop[OF run] loop_Break[OF brk] by simp
  from source_finder_returns[OF P this]
  show "\<exists>mo re. source_finder l data peak boundary w psf
                     = Some (Inr (catalog st, mo, re, mad_mean data))" by blast
  show "length (catalog st) = length sts"
    using run_catalog_length[OF run] by (simp add: init_state_def)
  have "rectangular (residual (init_state P))"
    using np_pad_rectangular[OF rect P] by (simp add: init_state_def)
  from run_peaks_sorted[OF run this amp]
  show "sorted_wrt (\<lambda>a b. b \<le> a) (map peak_of sts)" .
qed

theorem peaks_are_detected_brightest_first_witness:
  "rectangular twin_image \<and> length (flatten twin_image) = 32 \<and>
   np_pad twin_image (4 * 2) = Inr twin_padded \<and>
   run known_lsq (7863217155 / 256) (1572643431 / 128) 4 3 (init_state twin_padded)
     [init_state twin_padded, twin_state1] twin_state2 \<and>
   iteration known_lsq (7863217155 / 256) (1572643431 / 128) 4 3 twin_state2 = Break \<and>
   map fst (catalog twin_state2) = [43046721, 42515280 * exp (ln_b / 4)] \<and>
   (0::real) \<le> 43046721 \<and> (0::real) \<le> 42515280 * exp (ln_b / 4) \<and>
   map peak_of [init_state twin_padded, twin_state1] = [43046721, 42515280] \<and>
   sorted_wrt (\<lambda>a b. b \<le> a) (map peak_of [init_state twin_padded, twin_state1])"
proof -
  have h1: "rectangular twin_image" by code_simp
  have l: "length (flatten twin_image) = 32" by code_simp
  then have h0: "flatten twin_image \<noteq> []" by auto
  have h3: "run known_lsq (mad_mean twin_image * 5) (mad_mean twin_image * 2) 4 3
      (init_state twin_padded) [init_state twin_padded, twin_state1] twin_state2"
    using twin_run_states[of 3] by (simp add: twin_mad)
  have h4: "iteration known_lsq (mad_mean twin_image * 5) (mad_mean twin_image * 2) 4 3
      twin_state2 = Break"
    using twin_iteration_3[of 3] by (simp add: twin_mad)
  have c: "map fst (catalog twin_state2) = [43046721, 42515280 * exp (ln_b / 4)]"
    by (simp add: twin_state2_def src_a_def src_b_def)
  have h5: "\<forall>src\<in>set (catalog twin_state2). 0 \<le> fst src"
    by (simp add: twin_state2_def src_a_def src_b_def)
  have p: "map peak_of [init_state twin_padded, twin_state1] = [43046721, 42515280]"
    by (simp add: peak_of_max[OF twin_max_0] peak_of_max[OF twin_max_1])
  from peaks_are_detected_brightest_first[OF h1 h0 twin_pad h3 h4 h5]
  show ?thesis
    using h1 l twin_pad twin_run_states[of 3] twin_iteration_3[of 3] c p by simp
qed

end
